theory Spec2Isabelle
  imports Complex_Main "HOL-Library.Word"
begin

section \<open>Strings and numbers of the host language\<close>

text \<open>
  A TypeScript string is a sequence of UTF-16 code units, and \<open>length\<close>,
  \<open>startsWith\<close> and \<open>includes\<close> work on code units. A string is therefore a
  list of 16-bit words; \<open>ascii\<close> embeds an ASCII literal. A character outside the
  basic plane (the books emoji U+1F4DA) is its surrogate pair.
\<close>

type_synonym jsstring = "16 word list"

definition ascii :: "string \<Rightarrow> jsstring" where
  "ascii s = map of_char s"

text \<open>\<open>s.startsWith(p)\<close> and \<open>s.includes(p)\<close>.\<close>

fun startsWith :: "'a list \<Rightarrow> 'a list \<Rightarrow> bool" where
  "startsWith s [] = True"
| "startsWith [] (p # ps) = False"
| "startsWith (c # cs) (p # ps) = (c = p \<and> startsWith cs ps)"

fun str_includes :: "'a list \<Rightarrow> 'a list \<Rightarrow> bool" where
  "str_includes [] p = (p = [])"
| "str_includes (c # cs) p = (startsWith (c # cs) p \<or> str_includes cs p)"

text \<open>
  A number of the model is an integer from \<open>-2^53\<close> up to \<open>2^53 - 1\<close>: the range in
  which a JavaScript number holds every integer exactly and a template literal prints
  its exact decimal digits. It is a 54-bit word read as a signed value (\<open>sint\<close>); no
  arithmetic is done on it. Fractions, \<open>NaN\<close> and larger magnitudes, which print
  rounded digits or an exponent, are outside the model. Pull-request numbers and
  millisecond timestamps are in the range.
\<close>

type_synonym number = "54 word"

text \<open>
  Truthiness of the values the actions test with \<open>if (x)\<close>, \<open>!x\<close> or \<open>x || d\<close>:
  \<open>undefined\<close>, \<open>null\<close>, the empty string and the number 0 are falsy.
\<close>

definition truthy_string :: "jsstring option \<Rightarrow> bool" where
  "truthy_string s = (case s of None \<Rightarrow> False | Some v \<Rightarrow> v \<noteq> [])"

definition truthy_number :: "number option \<Rightarrow> bool" where
  "truthy_number n = (case n of None \<Rightarrow> False | Some v \<Rightarrow> v \<noteq> 0)"

text \<open>\<open>xs?.length\<close> as a condition: the array is present and not empty.\<close>

definition truthy_length :: "'a list option \<Rightarrow> bool" where
  "truthy_length xs = (case xs of None \<Rightarrow> False | Some v \<Rightarrow> v \<noteq> [])"

text \<open>
  Number to string, as a template literal \<open>`${n}`\<close> renders a number of the model:
  decimal digits, a leading minus sign for a negative one. \<open>`${undefined}`\<close> is the
  text \<open>undefined\<close>.
\<close>

definition digit :: "nat \<Rightarrow> 16 word" where
  "digit d = of_nat (48 + d)"

fun decimal :: "nat \<Rightarrow> jsstring" where
  "decimal n = (if n < 10 then [digit n] else decimal (n div 10) @ [digit (n mod 10)])"

declare decimal.simps [simp del]

definition number_toString :: "number \<Rightarrow> jsstring" where
  "number_toString n =
     (if sint n < 0 then ascii ''-'' @ decimal (nat (- sint n)) else decimal (nat (sint n)))"

definition template_number :: "number option \<Rightarrow> jsstring" where
  "template_number x = (case x of None \<Rightarrow> ascii ''undefined'' | Some n \<Rightarrow> number_toString n)"

section \<open>Data model\<close>

text \<open>
  The pipeline state (\<open>ReviewState\<close>). Its declaration is in a types module that the
  actions import; the records below have the fields the actions read and write.
\<close>

datatype change_type = Added | Modified | Deleted

record commit_file =
  cf_path :: jsstring
  cf_diff :: jsstring
  cf_type :: change_type

record commit_info =
  ci_files :: "commit_file list"
  ci_title :: jsstring
  ci_description :: jsstring
  ci_base_branch :: jsstring
  ci_head_branch :: jsstring

record branch_info =
  bi_name :: jsstring
  bi_sha :: jsstring
  bi_exists :: bool

datatype doc_kind = Doc | Navigation

datatype update_kind = Create | Update

record doc_file =
  df_path :: jsstring
  df_content :: "jsstring option"
  df_type :: doc_kind
  df_lastModified :: "jsstring option"

record pr_file =
  pf_path :: jsstring
  pf_content :: jsstring

record existing_pr =
  ep_number :: number
  ep_branch :: jsstring
  ep_files :: "pr_file list"

record doc_info =
  di_files :: "doc_file list"
  di_existingPR :: "existing_pr option"

record generated_content =
  gc_content :: jsstring
  gc_path :: jsstring
  gc_type :: doc_kind
  gc_update_type :: "update_kind option"

record doc_config =
  cfg_docExtensions :: "jsstring list"
  cfg_styleGuide :: "jsstring option"
  cfg_temperature :: "real option"

record review_state =
  commitInfo :: "commit_info option"
  docInfo :: "doc_info option"
  branchInfo :: "branch_info option"
  generatedContent :: "generated_content option"
  config :: doc_config

section \<open>The hosting platform and the text generator\<close>

text \<open>An open pull request, as \<open>pulls.list\<close> returns it; the body may be null.\<close>

record pull =
  pr_number :: number
  pr_title :: jsstring
  pr_body :: "jsstring option"
  pr_head_ref :: jsstring

text \<open>
  The response to \<open>repos.getContent\<close>: a file carries a base64 \<open>content\<close> and a
  \<open>sha\<close>; a directory listing has no \<open>content\<close> key.
\<close>

record content_data =
  cd_content :: "jsstring option"
  cd_sha :: jsstring

text \<open>
  What the text generator is asked: the values the action interpolates into its fixed
  prompt text.
\<close>

record llm_request =
  rq_kind :: doc_kind
  rq_existing :: "jsstring option"
  rq_existingPR :: "jsstring option"
  rq_docPaths :: "jsstring list"
  rq_similarDocs :: "jsstring list"
  rq_code_changes :: "jsstring option"
  rq_related_files :: "jsstring list option"
  rq_update_type :: "update_kind option"
  rq_category :: "jsstring option"
  rq_reason :: "jsstring option"
  rq_styleGuide :: "jsstring option"
  rq_temperature :: "real option"

datatype error =
    MissingCredential
  | DependencyUnmet
  | InvalidParameters
  | InvalidExtension jsstring
  | RemoteOperationFailed nat
  | ContentQualityRejected

text \<open>Every remote call an action makes is recorded, with its arguments, in order.\<close>

datatype call =
    PullsList
  | GitGetRef jsstring
  | ReposGet
  | GitCreateRef jsstring jsstring
  | PullsUpdate number jsstring jsstring
  | IssuesSetLabels number "jsstring list"
  | PullsCreate jsstring jsstring jsstring jsstring
  | IssuesAddLabels number "jsstring list"
  | IssuesCreateComment number jsstring
  | PullsListFiles number
  | ReposGetContent jsstring jsstring
  | ChatCompletionsCreate llm_request

text \<open>
  The gateway is the platform as one run of one action sees it, for the repository
  that the action's \<open>owner\<close> and \<open>repo\<close> parameters address: the answer to each
  call, an error (the call throws) or a value.
\<close>

record gateway =
  pulls_list :: "error + pull list"
  git_getRef :: "jsstring \<Rightarrow> error + jsstring"
  repos_get :: "error + jsstring"
  git_createRef :: "jsstring \<Rightarrow> jsstring \<Rightarrow> error + unit"
  pulls_update :: "number \<Rightarrow> jsstring \<Rightarrow> jsstring \<Rightarrow> error + unit"
  issues_setLabels :: "number \<Rightarrow> jsstring list \<Rightarrow> error + unit"
  pulls_create :: "jsstring \<Rightarrow> jsstring \<Rightarrow> jsstring \<Rightarrow> jsstring \<Rightarrow> error + number"
  issues_addLabels :: "number \<Rightarrow> jsstring list \<Rightarrow> error + unit"
  issues_createComment :: "number \<Rightarrow> jsstring \<Rightarrow> error + unit"
  pulls_listFiles :: "number \<Rightarrow> error + jsstring list"
  repos_getContent :: "jsstring \<Rightarrow> jsstring \<Rightarrow> error + content_data"
  chat_completions_create :: "llm_request \<Rightarrow> error + jsstring option"

text \<open>
  The process environment: the two credentials, the clock (\<open>Date.now()\<close>) and the
  platform's base64-to-UTF-8 decoder, which is total.
\<close>

record environment =
  GITHUB_TOKEN :: "jsstring option"
  OPENAI_API_KEY :: "jsstring option"
  now :: number
  base64_decode :: "jsstring \<Rightarrow> jsstring"

section \<open>Running an action\<close>

text \<open>
  An action's run is the list of the remote calls it made and its outcome: the error
  thrown (\<open>Inl\<close>) or the value returned (\<open>Inr\<close>). The calls made before a throw stay
  in the list.
\<close>

type_synonym 'a io = "call list \<times> (error + 'a)"

definition io_return :: "'a \<Rightarrow> 'a io" where
  "io_return x = ([], Inr x)"

definition io_throw :: "error \<Rightarrow> 'a io" where
  "io_throw e = ([], Inl e)"

definition io_call :: "call \<Rightarrow> error + 'a \<Rightarrow> 'a io" where
  "io_call c answer = ([c], answer)"

definition io_bind :: "'a io \<Rightarrow> ('a \<Rightarrow> 'b io) \<Rightarrow> 'b io" where
  "io_bind m f =
     (case m of
        (l, Inl e) \<Rightarrow> (l, Inl e)
      | (l, Inr x) \<Rightarrow> (case f x of (l', r) \<Rightarrow> (l @ l', r)))"

text \<open>\<open>try { m } catch (error) { h }\<close>.\<close>

definition io_catch :: "'a io \<Rightarrow> (error \<Rightarrow> 'a io) \<Rightarrow> 'a io" where
  "io_catch m h =
     (case m of
        (l, Inl e) \<Rightarrow> (case h e of (l', r) \<Rightarrow> (l @ l', r))
      | (l, Inr x) \<Rightarrow> (l, Inr x))"

text \<open>
  \<open>Promise.all(xs.map(async ...))\<close>: every callback is started, in index order; the
  result is the list of their values, or the first rejection.
\<close>

fun promise_all :: "'a io list \<Rightarrow> 'a list io" where
  "promise_all [] = ([], Inr [])"
| "promise_all (m # ms) =
     (case m of (l, r) \<Rightarrow>
        (case promise_all ms of (l', rs) \<Rightarrow>
           (l @ l',
            case r of
              Inl e \<Rightarrow> Inl e
            | Inr x \<Rightarrow> (case rs of Inl e \<Rightarrow> Inl e | Inr xs \<Rightarrow> Inr (x # xs)))))"

section \<open>Recognising the documentation pull request\<close>

text \<open>
  The three actions each search the open pull requests with
  \<open>pulls.find(pr => pr.title.startsWith(MARKER) && pr.body?.includes(`#${id}`))\<close>.
  Each literal is transcribed from its own source file. In \<open>getBranch\<close> the literal
  is the four characters U+00F0 U+0178 U+201C U+0161 before \<open>Update documentation\<close>;
  in \<open>managePR\<close> and \<open>findDocumentation\<close> it is the character U+1F4DA.
\<close>

definition getBranch_marker :: jsstring where
  "getBranch_marker = [0x00F0, 0x0178, 0x201C, 0x0161] @ ascii '' Update documentation''"

definition managePR_marker :: jsstring where
  "managePR_marker = [0xD83D, 0xDCDA] @ ascii '' Update documentation''"

definition findDocumentation_marker :: jsstring where
  "findDocumentation_marker = [0xD83D, 0xDCDA] @ ascii '' Update documentation''"

text \<open>\<open>pr.body?.includes(x)\<close>: undefined, hence falsy, when the body is null.\<close>

definition body_includes :: "jsstring option \<Rightarrow> jsstring \<Rightarrow> bool" where
  "body_includes b x = (case b of None \<Rightarrow> False | Some s \<Rightarrow> str_includes s x)"

definition getBranch_isExistingPR :: "number option \<Rightarrow> pull \<Rightarrow> bool" where
  "getBranch_isExistingPR original_pr_number pr =
     (startsWith (pr_title pr) getBranch_marker \<and>
      body_includes (pr_body pr) (ascii ''#'' @ template_number original_pr_number))"

definition managePR_isExistingPR :: "number option \<Rightarrow> pull \<Rightarrow> bool" where
  "managePR_isExistingPR original_pr_number pr =
     (startsWith (pr_title pr) managePR_marker \<and>
      body_includes (pr_body pr) (ascii ''#'' @ template_number original_pr_number))"

definition findDocumentation_isDocsPR :: "number option \<Rightarrow> pull \<Rightarrow> bool" where
  "findDocumentation_isDocsPR pull_number pr =
     (startsWith (pr_title pr) findDocumentation_marker \<and>
      body_includes (pr_body pr) (ascii ''#'' @ template_number pull_number))"

section \<open>getBranch: the branch reconciler\<close>

text \<open>
  The parameters arrive untyped; a field is \<open>None\<close> when it is missing or fails the
  action's \<open>typeof\<close> test.
\<close>

record getBranch_parameters =
  gb_owner :: "jsstring option"
  gb_repo :: "jsstring option"
  gb_original_pr_number :: "number option"

text \<open>
  The first half: when the number is truthy, list the open pull requests, and if one
  is recognised, read the tip of its head branch. \<open>None\<close> is falling through to the
  second half.
\<close>

definition getBranch_existing :: "gateway \<Rightarrow> number option \<Rightarrow> branch_info option io" where
  "getBranch_existing gw original_pr_number =
     (if truthy_number original_pr_number then
        io_bind (io_call PullsList (pulls_list gw)) (\<lambda>pulls.
          case find (getBranch_isExistingPR original_pr_number) pulls of
            Some existingPR \<Rightarrow>
              io_bind (io_call (GitGetRef (ascii ''heads/'' @ pr_head_ref existingPR))
                         (git_getRef gw (ascii ''heads/'' @ pr_head_ref existingPR)))
                (\<lambda>sha. io_return
                   (Some \<lparr>bi_name = pr_head_ref existingPR, bi_sha = sha, bi_exists = True\<rparr>))
          | None \<Rightarrow> io_return None)
      else io_return None)"

definition getBranch_branchName :: "number option \<Rightarrow> number \<Rightarrow> jsstring" where
  "getBranch_branchName original_pr_number clock =
     (if truthy_number original_pr_number
      then ascii ''docs/update-pr-'' @ template_number original_pr_number
      else ascii ''docs/update-'' @ number_toString clock)"

text \<open>The second half: a new branch from the tip of the default branch.\<close>

definition getBranch_create :: "environment \<Rightarrow> gateway \<Rightarrow> number option \<Rightarrow> branch_info io" where
  "getBranch_create env gw original_pr_number =
     io_bind (io_call ReposGet (repos_get gw)) (\<lambda>baseBranch.
       let branchName = getBranch_branchName original_pr_number (now env) in
       io_bind (io_call (GitGetRef (ascii ''heads/'' @ baseBranch))
                  (git_getRef gw (ascii ''heads/'' @ baseBranch))) (\<lambda>sha.
         io_bind (io_call (GitCreateRef (ascii ''refs/heads/'' @ branchName) sha)
                    (git_createRef gw (ascii ''refs/heads/'' @ branchName) sha)) (\<lambda>_.
           io_return \<lparr>bi_name = branchName, bi_sha = sha, bi_exists = True\<rparr>)))"

definition getBranch ::
  "environment \<Rightarrow> gateway \<Rightarrow> review_state \<Rightarrow> getBranch_parameters \<Rightarrow> review_state io" where
  "getBranch env gw state parameters =
     (if \<not> truthy_string (GITHUB_TOKEN env) then io_throw MissingCredential
      else case (gb_owner parameters, gb_repo parameters) of
        (Some owner, Some repo) \<Rightarrow>
          io_bind (getBranch_existing gw (gb_original_pr_number parameters)) (\<lambda>found.
            case found of
              Some branch \<Rightarrow> io_return (state\<lparr>branchInfo := Some branch\<rparr>)
            | None \<Rightarrow>
                io_bind (getBranch_create env gw (gb_original_pr_number parameters))
                  (\<lambda>branch. io_return (state\<lparr>branchInfo := Some branch\<rparr>)))
      | _ \<Rightarrow> io_throw InvalidParameters)"

text \<open>The branch-creation calls of a run.\<close>

fun is_createRef :: "call \<Rightarrow> bool" where
  "is_createRef (GitCreateRef r s) = True"
| "is_createRef _ = False"

section \<open>managePR: the pull-request reconciler\<close>

record managePR_parameters =
  mp_owner :: "jsstring option"
  mp_repo :: "jsstring option"
  mp_title :: "jsstring option"
  mp_body :: "jsstring option"
  mp_base_branch :: "jsstring option"
  mp_labels :: "jsstring list option"
  mp_original_pr_number :: "number option"

definition branch_exists :: "review_state \<Rightarrow> bool" where
  "branch_exists state = (case branchInfo state of None \<Rightarrow> False | Some b \<Rightarrow> bi_exists b)"

definition branch_name :: "review_state \<Rightarrow> jsstring" where
  "branch_name state = (case branchInfo state of None \<Rightarrow> [] | Some b \<Rightarrow> bi_name b)"

definition managePR_update ::
  "gateway \<Rightarrow> pull \<Rightarrow> jsstring \<Rightarrow> jsstring \<Rightarrow> jsstring list option \<Rightarrow> unit io" where
  "managePR_update gw existingPR title body labels =
     io_bind (io_call (PullsUpdate (pr_number existingPR) title body)
                (pulls_update gw (pr_number existingPR) title body)) (\<lambda>_.
       if truthy_length labels
       then io_call (IssuesSetLabels (pr_number existingPR) (the labels))
              (issues_setLabels gw (pr_number existingPR) (the labels))
       else io_return ())"

definition managePR_comment :: "number \<Rightarrow> jsstring" where
  "managePR_comment n =
     ascii ''I've created a documentation update PR: #'' @ number_toString n"

definition managePR_create ::
  "gateway \<Rightarrow> jsstring \<Rightarrow> jsstring \<Rightarrow> jsstring \<Rightarrow> jsstring option \<Rightarrow> jsstring list option \<Rightarrow>
   number option \<Rightarrow> unit io" where
  "managePR_create gw title body head base_branch labels original_pr_number =
     io_bind (if \<not> truthy_string base_branch then io_call ReposGet (repos_get gw)
              else io_return (the base_branch)) (\<lambda>base.
       io_bind (io_call (PullsCreate title body head base)
                  (pulls_create gw title body head base)) (\<lambda>number.
         io_bind (if truthy_length labels
                  then io_call (IssuesAddLabels number (the labels))
                         (issues_addLabels gw number (the labels))
                  else io_return ()) (\<lambda>_.
           if truthy_number original_pr_number
           then io_call (IssuesCreateComment (the original_pr_number) (managePR_comment number))
                  (issues_createComment gw (the original_pr_number) (managePR_comment number))
           else io_return ())))"

definition managePR ::
  "environment \<Rightarrow> gateway \<Rightarrow> review_state \<Rightarrow> managePR_parameters \<Rightarrow> review_state io" where
  "managePR env gw state parameters =
     (if \<not> truthy_string (GITHUB_TOKEN env) then io_throw MissingCredential
      else if \<not> branch_exists state then io_throw DependencyUnmet
      else case (mp_owner parameters, mp_repo parameters, mp_title parameters, mp_body parameters) of
        (Some owner, Some repo, Some title, Some body) \<Rightarrow>
          io_bind (io_call PullsList (pulls_list gw)) (\<lambda>pulls.
            case find (managePR_isExistingPR (mp_original_pr_number parameters)) pulls of
              Some existingPR \<Rightarrow>
                io_bind (managePR_update gw existingPR title body (mp_labels parameters))
                  (\<lambda>_. io_return state)
            | None \<Rightarrow>
                io_bind (managePR_create gw title body (branch_name state)
                           (mp_base_branch parameters) (mp_labels parameters)
                           (mp_original_pr_number parameters))
                  (\<lambda>_. io_return state))
      | _ \<Rightarrow> io_throw InvalidParameters)"

fun is_update :: "call \<Rightarrow> bool" where
  "is_update (PullsUpdate n t b) = True"
| "is_update _ = False"

fun is_create :: "call \<Rightarrow> bool" where
  "is_create (PullsCreate t b h base) = True"
| "is_create _ = False"

fun is_comment :: "call \<Rightarrow> bool" where
  "is_comment (IssuesCreateComment n b) = True"
| "is_comment _ = False"

text \<open>
  What a run asked the platform to create: the refs passed to \<open>git.createRef\<close>, and
  the branch names, which are those refs without their \<open>refs/heads/\<close> prefix.
\<close>

fun created_refs :: "call list \<Rightarrow> jsstring list" where
  "created_refs [] = []"
| "created_refs (GitCreateRef r s # cs) = r # created_refs cs"
| "created_refs (c # cs) = created_refs cs"

fun created_branches :: "call list \<Rightarrow> jsstring list" where
  "created_branches [] = []"
| "created_branches (GitCreateRef r s # cs) = drop 11 r # created_branches cs"
| "created_branches (c # cs) = created_branches cs"

text \<open>The name of the branch a run returned in \<open>branchInfo\<close>, if it returned.\<close>

definition returned_branch_name :: "review_state io \<Rightarrow> jsstring option" where
  "returned_branch_name run =
     (case snd run of
        Inl e \<Rightarrow> None
      | Inr s \<Rightarrow> (case branchInfo s of None \<Rightarrow> None | Some b \<Rightarrow> Some (bi_name b)))"

section \<open>findDocumentation: documentation discovery\<close>

text \<open>
  The parameters are cast to their declared type, not checked; a missing number
  would render as \<open>undefined\<close> in the body test.
\<close>

record findDocumentation_parameters =
  fd_owner :: jsstring
  fd_repo :: jsstring
  fd_pull_number :: "number option"
  fd_paths :: "jsstring list"

text \<open>
  \<open>path.replace(/^src\//, "docs/").replace(/\.[jt]sx?$/, ".mdx")\<close>. The first
  pattern can only match at index 0. The second is anchored at the end of the input,
  so it matches at an index exactly when the rest of the string from there is one of
  four extensions; \<open>replace\<close> takes the leftmost such index.
\<close>

definition replace_src_prefix :: "jsstring \<Rightarrow> jsstring" where
  "replace_src_prefix p = (if startsWith p (ascii ''src/'') then ascii ''docs/'' @ drop 4 p else p)"

definition source_extensions :: "jsstring list" where
  "source_extensions = [ascii ''.js'', ascii ''.jsx'', ascii ''.ts'', ascii ''.tsx'']"

fun replace_extension :: "jsstring \<Rightarrow> jsstring" where
  "replace_extension [] = []"
| "replace_extension (c # cs) =
     (if c # cs \<in> set source_extensions then ascii ''.mdx'' else c # replace_extension cs)"

definition docPath :: "jsstring \<Rightarrow> jsstring" where
  "docPath path = replace_extension (replace_src_prefix path)"

text \<open>
  One file of the existing documentation pull request, read on that request's head
  branch. The \<open>try\<close> block returns only when the response has a content; a throw is
  caught and logged; both other ways fall through to the empty content.
\<close>

definition fetch_pr_file :: "environment \<Rightarrow> gateway \<Rightarrow> jsstring \<Rightarrow> jsstring \<Rightarrow> pr_file io" where
  "fetch_pr_file env gw ref filename =
     io_bind
       (io_catch
          (io_bind (io_call (ReposGetContent filename ref) (repos_getContent gw filename ref))
             (\<lambda>data. io_return
                (case cd_content data of
                   Some c \<Rightarrow> Some \<lparr>pf_path = filename, pf_content = base64_decode env c\<rparr>
                 | None \<Rightarrow> None)))
          (\<lambda>error. io_return None))
       (\<lambda>returned. io_return
          (case returned of
             Some file \<Rightarrow> file
           | None \<Rightarrow> \<lparr>pf_path = filename, pf_content = []\<rparr>))"

text \<open>One changed source path: its documentation path, read on the branch \<open>main\<close>.\<close>

definition fetch_doc_file :: "environment \<Rightarrow> gateway \<Rightarrow> jsstring \<Rightarrow> doc_file io" where
  "fetch_doc_file env gw path =
     io_bind
       (io_catch
          (io_bind (io_call (ReposGetContent (docPath path) (ascii ''main''))
                      (repos_getContent gw (docPath path) (ascii ''main'')))
             (\<lambda>data. io_return
                (case cd_content data of
                   Some c \<Rightarrow>
                     Some \<lparr>df_path = docPath path, df_content = Some (base64_decode env c),
                           df_type = Doc, df_lastModified = Some (cd_sha data)\<rparr>
                 | None \<Rightarrow> None)))
          (\<lambda>error. io_return None))
       (\<lambda>returned. io_return
          (case returned of
             Some file \<Rightarrow> file
           | None \<Rightarrow>
               \<lparr>df_path = docPath path, df_content = None, df_type = Doc,
                df_lastModified = None\<rparr>))"

text \<open>
  The navigation file: the entries pushed onto the list of files. A response without
  a content pushes nothing.
\<close>

definition fetch_navigation :: "environment \<Rightarrow> gateway \<Rightarrow> doc_file list io" where
  "fetch_navigation env gw =
     io_catch
       (io_bind (io_call (ReposGetContent (ascii ''mint.json'') (ascii ''main''))
                   (repos_getContent gw (ascii ''mint.json'') (ascii ''main'')))
          (\<lambda>data. io_return
             (case cd_content data of
                Some c \<Rightarrow>
                  [\<lparr>df_path = ascii ''mint.json'', df_content = Some (base64_decode env c),
                    df_type = Navigation, df_lastModified = Some (cd_sha data)\<rparr>]
              | None \<Rightarrow> [])))
       (\<lambda>error. io_return
          [\<lparr>df_path = ascii ''mint.json'', df_content = None, df_type = Navigation,
            df_lastModified = None\<rparr>])"

definition findDocumentation_existingPR ::
  "environment \<Rightarrow> gateway \<Rightarrow> pull list \<Rightarrow> number option \<Rightarrow> existing_pr option io" where
  "findDocumentation_existingPR env gw pulls pull_number =
     (case find (findDocumentation_isDocsPR pull_number) pulls of
        Some docsPR \<Rightarrow>
          io_bind (io_call (PullsListFiles (pr_number docsPR))
                     (pulls_listFiles gw (pr_number docsPR))) (\<lambda>files.
            io_bind (promise_all (map (fetch_pr_file env gw (pr_head_ref docsPR)) files))
              (\<lambda>fetched. io_return
                 (Some \<lparr>ep_number = pr_number docsPR, ep_branch = pr_head_ref docsPR,
                        ep_files = fetched\<rparr>)))
      | None \<Rightarrow> io_return None)"

definition findDocumentation ::
  "environment \<Rightarrow> gateway \<Rightarrow> review_state \<Rightarrow> findDocumentation_parameters \<Rightarrow> review_state io" where
  "findDocumentation env gw state parameters =
     (if \<not> truthy_string (GITHUB_TOKEN env) then io_throw MissingCredential
      else
        io_bind (io_call PullsList (pulls_list gw)) (\<lambda>pulls.
          io_bind (findDocumentation_existingPR env gw pulls (fd_pull_number parameters))
            (\<lambda>existingPR.
              io_bind (promise_all (map (fetch_doc_file env gw) (fd_paths parameters)))
                (\<lambda>docFiles.
                  io_bind (fetch_navigation env gw) (\<lambda>navigation.
                    io_return
                      (state\<lparr>docInfo :=
                         Some \<lparr>di_files = docFiles @ navigation,
                               di_existingPR = existingPR\<rparr>\<rparr>))))))"

section \<open>writeDocumentation: template selection and the content gate\<close>

record writeDocumentation_context =
  wc_related_files :: "jsstring list option"
  wc_code_changes :: "jsstring option"
  wc_category :: "jsstring option"
  wc_template_paths :: "jsstring list option"
  wc_update_type :: "update_kind option"
  wc_reason :: "jsstring option"

text \<open>
  \<open>wd_type\<close> is \<open>None\<close> when the parameter is missing, not a string, or neither
  \<open>doc\<close> nor \<open>navigation\<close>.
\<close>

record writeDocumentation_parameters =
  wd_path :: "jsstring option"
  wd_type :: "doc_kind option"
  wd_context :: "writeDocumentation_context option"

text \<open>\<open>path.substring(path.lastIndexOf("."))\<close>: a negative start counts as 0.\<close>

definition lastIndexOf :: "'a list \<Rightarrow> 'a \<Rightarrow> int" where
  "lastIndexOf s c =
     (if c \<in> set s then int (length s - 1 - length (takeWhile (\<lambda>x. x \<noteq> c) (rev s))) else - 1)"

definition substring_from :: "'a list \<Rightarrow> int \<Rightarrow> 'a list" where
  "substring_from s i = drop (nat (max 0 i)) s"

definition fileExt :: "jsstring \<Rightarrow> jsstring" where
  "fileExt path = substring_from path (lastIndexOf path 0x2E)"

text \<open>\<open>path.split("/").slice(-2, -1)[0]\<close>: the second-to-last segment, or undefined.\<close>

fun split_slash :: "jsstring \<Rightarrow> jsstring list" where
  "split_slash [] = [[]]"
| "split_slash (c # cs) =
     (if c = 0x2F then [] # split_slash cs
      else (case split_slash cs of [] \<Rightarrow> [[c]] | seg # segs \<Rightarrow> (c # seg) # segs))"

definition category_of :: "jsstring \<Rightarrow> jsstring option" where
  "category_of path =
     (let segments = split_slash path
      in if 2 \<le> length segments then Some (segments ! (length segments - 2)) else None)"

definition template_string :: "jsstring option \<Rightarrow> jsstring" where
  "template_string x = (case x of None \<Rightarrow> ascii ''undefined'' | Some s \<Rightarrow> s)"

definition known_files :: "review_state \<Rightarrow> doc_file list" where
  "known_files state = (case docInfo state of None \<Rightarrow> [] | Some d \<Rightarrow> di_files d)"

definition findSimilarDocs ::
  "jsstring \<Rightarrow> jsstring option \<Rightarrow> jsstring list option \<Rightarrow> review_state \<Rightarrow> jsstring list" where
  "findSimilarDocs path category templatePaths state =
     (let templates =
            (if truthy_length templatePaths
             then filter (\<lambda>file. df_path file \<in> set (the templatePaths) \<and>
                                 truthy_string (df_content file)) (known_files state)
             else [])
      in if templates \<noteq> [] then map (\<lambda>doc. the (df_content doc)) templates
         else map (\<lambda>doc. the (df_content doc))
                (filter (\<lambda>file. df_type file = Doc \<and> truthy_string (df_content file) \<and>
                                 df_path file \<noteq> path \<and>
                                 str_includes (df_path file)
                                   (ascii ''/'' @ template_string category @ ascii ''/''))
                   (known_files state)))"

text \<open>The gate on generated documentation; the code fence is three backticks.\<close>

definition code_fence :: jsstring where
  "code_fence = [0x60, 0x60, 0x60]"

definition quality_rejected :: "jsstring \<Rightarrow> bool" where
  "quality_rejected content =
     (length content < 100 \<or> str_includes content (ascii ''TODO'') \<or>
      str_includes content (ascii ''placeholder'') \<or> \<not> str_includes content code_fence)"

definition or_default :: "jsstring option \<Rightarrow> jsstring \<Rightarrow> jsstring" where
  "or_default x d = (if truthy_string x then the x else d)"

definition existing_file_content :: "review_state \<Rightarrow> jsstring \<Rightarrow> jsstring option" where
  "existing_file_content state path =
     (case find (\<lambda>f. df_path f = path) (known_files state) of
        None \<Rightarrow> None
      | Some f \<Rightarrow> df_content f)"

definition existing_pr_file_content :: "review_state \<Rightarrow> jsstring \<Rightarrow> jsstring option" where
  "existing_pr_file_content state path =
     (case docInfo state of
        None \<Rightarrow> None
      | Some d \<Rightarrow>
          (case di_existingPR d of
             None \<Rightarrow> None
           | Some e \<Rightarrow>
               (case find (\<lambda>f. pf_path f = path) (ep_files e) of
                  None \<Rightarrow> None
                | Some f \<Rightarrow> Some (pf_content f))))"

definition context_field :: "writeDocumentation_context option \<Rightarrow>
    (writeDocumentation_context \<Rightarrow> 'a option) \<Rightarrow> 'a option" where
  "context_field c field = (case c of None \<Rightarrow> None | Some v \<Rightarrow> field v)"

definition generation_request ::
  "review_state \<Rightarrow> jsstring \<Rightarrow> doc_kind \<Rightarrow> writeDocumentation_context option \<Rightarrow> llm_request" where
  "generation_request state path kind c =
     \<lparr>rq_kind = kind,
      rq_existing = existing_file_content state path,
      rq_existingPR = existing_pr_file_content state path,
      rq_docPaths = map df_path (filter (\<lambda>f. df_type f = Doc) (known_files state)),
      rq_similarDocs =
        findSimilarDocs path (category_of path) (context_field c wc_template_paths) state,
      rq_code_changes = context_field c wc_code_changes,
      rq_related_files = context_field c wc_related_files,
      rq_update_type = context_field c wc_update_type,
      rq_category = category_of path,
      rq_reason = context_field c wc_reason,
      rq_styleGuide = cfg_styleGuide (config state),
      rq_temperature = cfg_temperature (config state)\<rparr>"

definition writeDocumentation ::
  "environment \<Rightarrow> gateway \<Rightarrow> review_state \<Rightarrow> writeDocumentation_parameters \<Rightarrow> review_state io" where
  "writeDocumentation env gw state parameters =
     (if \<not> truthy_string (OPENAI_API_KEY env) then io_throw MissingCredential
      else case (wd_path parameters, wd_type parameters) of
        (Some path, Some kind) \<Rightarrow>
          if kind = Doc \<and> fileExt path \<notin> set (cfg_docExtensions (config state))
          then io_throw (InvalidExtension (fileExt path))
          else
            io_bind (io_call (ChatCompletionsCreate
                                (generation_request state path kind (wd_context parameters)))
                       (chat_completions_create gw
                          (generation_request state path kind (wd_context parameters))))
              (\<lambda>response.
                 let content = or_default response [] in
                 if kind = Navigation then
                   io_return
                     (state\<lparr>generatedContent :=
                        Some \<lparr>gc_content = content, gc_path = path, gc_type = kind,
                              gc_update_type = None\<rparr>\<rparr>)
                 else if quality_rejected content then io_throw ContentQualityRejected
                 else
                   io_return
                     (state\<lparr>generatedContent :=
                        Some \<lparr>gc_content = content, gc_path = path, gc_type = kind,
                              gc_update_type =
                                Some (case context_field (wd_context parameters) wc_update_type of
                                        None \<Rightarrow> Update
                                      | Some u \<Rightarrow> u)\<rparr>\<rparr>))
      | _ \<Rightarrow> io_throw InvalidParameters)"

section \<open>Example inputs\<close>

text \<open>
  A process environment with both credentials, a platform that answers every call,
  and a state before and after branch reconciliation. The decoder of the example is
  a stand-in: the examples do not depend on what it computes.
\<close>

definition example_env :: environment where
  "example_env =
     \<lparr>GITHUB_TOKEN = Some (ascii ''ghp-token''), OPENAI_API_KEY = Some (ascii ''sk-key''),
      now = 1700000000000, base64_decode = (\<lambda>s. s)\<rparr>"

definition example_gateway :: "pull list \<Rightarrow> gateway" where
  "example_gateway pulls =
     \<lparr>pulls_list = Inr pulls,
      git_getRef = (\<lambda>r. Inr (ascii ''5f2c1e'')),
      repos_get = Inr (ascii ''main''),
      git_createRef = (\<lambda>r s. Inr ()),
      pulls_update = (\<lambda>n t b. Inr ()),
      issues_setLabels = (\<lambda>n ls. Inr ()),
      pulls_create = (\<lambda>t b h base. Inr 43),
      issues_addLabels = (\<lambda>n ls. Inr ()),
      issues_createComment = (\<lambda>n b. Inr ()),
      pulls_listFiles = (\<lambda>n. Inr [ascii ''docs/llm/openai.mdx'', ascii ''docs/llm/gone.mdx'']),
      repos_getContent = (\<lambda>p r.
         if p = ascii ''docs/llm/openai.mdx''
         then Inr \<lparr>cd_content = Some (ascii ''# OpenAI''), cd_sha = ascii ''9a1b''\<rparr>
         else Inl (RemoteOperationFailed 404)),
      chat_completions_create = (\<lambda>rq. Inr None)\<rparr>"

definition example_state :: review_state where
  "example_state =
     \<lparr>commitInfo = None, docInfo = None, branchInfo = None, generatedContent = None,
      config = \<lparr>cfg_docExtensions = [ascii ''.mdx'', ascii ''.md''],
                cfg_styleGuide = None, cfg_temperature = None\<rparr>\<rparr>"

definition example_branch_state :: review_state where
  "example_branch_state =
     example_state\<lparr>branchInfo :=
       Some \<lparr>bi_name = ascii ''docs/update-pr-42'', bi_sha = ascii ''5f2c1e'', bi_exists = True\<rparr>\<rparr>"

text \<open>The same platform, refusing to create a ref, as it does for one that exists.\<close>

definition refusing_gateway :: "pull list \<Rightarrow> gateway" where
  "refusing_gateway pulls =
     (example_gateway pulls)\<lparr>git_createRef := (\<lambda>r s. Inl (RemoteOperationFailed 422))\<rparr>"

text \<open>
  Open pull requests: one titled with the marker of \<open>managePR\<close>, one titled with
  the marker of \<open>getBranch\<close>, one whose body holds the text \<open>#undefined\<close>, and one
  about another change.
\<close>

definition books_pull :: pull where
  "books_pull =
     \<lparr>pr_number = 7,
      pr_title = [0xD83D, 0xDCDA] @ ascii '' Update documentation for #42'',
      pr_body = Some (ascii ''Documents the changes of #42''),
      pr_head_ref = ascii ''docs/update-pr-42''\<rparr>"

definition artifact_pull :: pull where
  "artifact_pull =
     \<lparr>pr_number = 8,
      pr_title = [0x00F0, 0x0178, 0x201C, 0x0161] @ ascii '' Update documentation for #42'',
      pr_body = Some (ascii ''Documents the changes of #42''),
      pr_head_ref = ascii ''docs/update-pr-42''\<rparr>"

definition undefined_pull :: pull where
  "undefined_pull =
     \<lparr>pr_number = 9,
      pr_title = [0xD83D, 0xDCDA] @ ascii '' Update documentation'',
      pr_body = Some (ascii ''Relates to #undefined''),
      pr_head_ref = ascii ''docs/update-1700000000000''\<rparr>"

definition other_pull :: pull where
  "other_pull =
     \<lparr>pr_number = 5,
      pr_title = [0x00F0, 0x0178, 0x201C, 0x0161] @ ascii '' Update documentation for #41'',
      pr_body = Some (ascii ''Documents the changes of #41''),
      pr_head_ref = ascii ''docs/update-pr-41''\<rparr>"

definition example_getBranch_parameters :: "number option \<Rightarrow> getBranch_parameters" where
  "example_getBranch_parameters n =
     \<lparr>gb_owner = Some (ascii ''acme''), gb_repo = Some (ascii ''sdk''),
      gb_original_pr_number = n\<rparr>"

definition example_managePR_parameters :: "number option \<Rightarrow> managePR_parameters" where
  "example_managePR_parameters n =
     \<lparr>mp_owner = Some (ascii ''acme''), mp_repo = Some (ascii ''sdk''),
      mp_title = Some ([0xD83D, 0xDCDA] @ ascii '' Update documentation for #42''),
      mp_body = Some (ascii ''Documents the changes of #42''),
      mp_base_branch = None, mp_labels = Some [ascii ''documentation''],
      mp_original_pr_number = n\<rparr>"

section \<open>What discovery records for one file\<close>

text \<open>
  The entry recorded for one changed source path, for one file of the existing
  documentation pull request, and for the navigation file, each as a function of the
  platform's answer for that one file.
\<close>

definition recorded_doc_file :: "environment \<Rightarrow> gateway \<Rightarrow> jsstring \<Rightarrow> doc_file" where
  "recorded_doc_file env gw path =
     (case repos_getContent gw (docPath path) (ascii ''main'') of
        Inl e \<Rightarrow> \<lparr>df_path = docPath path, df_content = None, df_type = Doc, df_lastModified = None\<rparr>
      | Inr data \<Rightarrow>
          (case cd_content data of
             None \<Rightarrow> \<lparr>df_path = docPath path, df_content = None, df_type = Doc,
                       df_lastModified = None\<rparr>
           | Some c \<Rightarrow> \<lparr>df_path = docPath path, df_content = Some (base64_decode env c),
                         df_type = Doc, df_lastModified = Some (cd_sha data)\<rparr>))"

definition recorded_pr_file :: "environment \<Rightarrow> gateway \<Rightarrow> jsstring \<Rightarrow> jsstring \<Rightarrow> pr_file" where
  "recorded_pr_file env gw ref filename =
     (case repos_getContent gw filename ref of
        Inl e \<Rightarrow> \<lparr>pf_path = filename, pf_content = []\<rparr>
      | Inr data \<Rightarrow>
          (case cd_content data of
             None \<Rightarrow> \<lparr>pf_path = filename, pf_content = []\<rparr>
           | Some c \<Rightarrow> \<lparr>pf_path = filename, pf_content = base64_decode env c\<rparr>))"

definition recorded_navigation :: "environment \<Rightarrow> gateway \<Rightarrow> doc_file list" where
  "recorded_navigation env gw =
     (case repos_getContent gw (ascii ''mint.json'') (ascii ''main'') of
        Inl e \<Rightarrow> [\<lparr>df_path = ascii ''mint.json'', df_content = None, df_type = Navigation,
                    df_lastModified = None\<rparr>]
      | Inr data \<Rightarrow>
          (case cd_content data of
             None \<Rightarrow> []
           | Some c \<Rightarrow> [\<lparr>df_path = ascii ''mint.json'', df_content = Some (base64_decode env c),
                          df_type = Navigation, df_lastModified = Some (cd_sha data)\<rparr>]))"

section \<open>Selection by category, as the specification words it\<close>

text \<open>
  The specification's wording of the selection by category: the known files of kind
  doc with a content, other than the target, whose second-to-last path segment equals
  the target's. It is compared with \<open>findSimilarDocs\<close> below.
\<close>

definition claimed_similar_by_category :: "jsstring \<Rightarrow> review_state \<Rightarrow> jsstring list" where
  "claimed_similar_by_category path state =
     map (\<lambda>doc. the (df_content doc))
       (filter (\<lambda>file. df_type file = Doc \<and> truthy_string (df_content file) \<and>
                        df_path file \<noteq> path \<and> category_of (df_path file) = category_of path)
          (known_files state))"

section \<open>Example inputs for discovery and generation\<close>

definition example_findDocumentation_parameters :: findDocumentation_parameters where
  "example_findDocumentation_parameters =
     \<lparr>fd_owner = ascii ''acme'', fd_repo = ascii ''sdk'', fd_pull_number = Some 42,
      fd_paths = [ascii ''src/llm/openai.ts'', ascii ''src/llm/new.ts'']\<rparr>"

definition example_docs_state :: review_state where
  "example_docs_state =
     example_state\<lparr>docInfo := Some
       \<lparr>di_files =
          [\<lparr>df_path = ascii ''docs/llm/extra/notes.mdx'', df_content = Some (ascii ''# Notes''),
            df_type = Doc, df_lastModified = None\<rparr>,
           \<lparr>df_path = ascii ''docs/http/fetch.mdx'', df_content = Some (ascii ''# Fetch''),
            df_type = Doc, df_lastModified = None\<rparr>,
           \<lparr>df_path = ascii ''docs/llm/empty.mdx'', df_content = None,
            df_type = Doc, df_lastModified = None\<rparr>],
        di_existingPR = None\<rparr>\<rparr>"

definition example_llm_gateway :: "jsstring \<Rightarrow> gateway" where
  "example_llm_gateway answer =
     (example_gateway [])\<lparr>chat_completions_create := (\<lambda>rq. Inr (Some answer))\<rparr>"

definition short_content :: jsstring where
  "short_content = replicate 40 0x61"

definition long_content :: jsstring where
  "long_content = replicate 497 0x61 @ code_fence"

definition example_writeDocumentation_parameters :: writeDocumentation_parameters where
  "example_writeDocumentation_parameters =
     \<lparr>wd_path = Some (ascii ''docs/llm/openai.mdx''), wd_type = Some Doc, wd_context = None\<rparr>"

section \<open>Running an action: basic facts\<close>

lemma io_bind_Inr: "io_bind (l, Inr x) f = (l @ fst (f x), snd (f x))"
  by (simp add: io_bind_def split: prod.splits)

lemma io_bind_Inl: "io_bind (l, Inl e) f = (l, Inl e)"
  by (simp add: io_bind_def)

lemmas io_simps = io_return_def io_throw_def io_call_def io_bind_Inr io_bind_Inl

lemma fst_io_bind: "fst (io_bind m f) = fst m @ (case snd m of Inl e \<Rightarrow> [] | Inr x \<Rightarrow> fst (f x))"
  by (cases m) (auto simp: io_bind_def split: sum.splits prod.splits)

lemma snd_io_bind: "snd (io_bind m f) = (case snd m of Inl e \<Rightarrow> Inl e | Inr x \<Rightarrow> snd (f x))"
  by (cases m) (auto simp: io_bind_def split: sum.splits prod.splits)

lemmas example_defs = example_env_def example_gateway_def example_state_def
  example_branch_state_def example_getBranch_parameters_def example_managePR_parameters_def

lemma decimal_42: "decimal 42 = ascii ''42''"
  by (simp add: decimal.simps digit_def ascii_def)

lemma number_toString_42: "number_toString 42 = ascii ''42''"
  by (simp add: number_toString_def decimal_42)

section \<open>The three searches\<close>

lemma find_artifact:
  "find (getBranch_isExistingPR (Some 42)) [artifact_pull] = Some artifact_pull"
  by (simp add: getBranch_isExistingPR_def getBranch_marker_def artifact_pull_def
      body_includes_def template_number_def number_toString_42 ascii_def)

lemma find_books_getBranch:
  "find (getBranch_isExistingPR (Some 42)) [books_pull] = None"
  by (simp add: getBranch_isExistingPR_def getBranch_marker_def books_pull_def ascii_def)

lemma find_books_managePR:
  "find (managePR_isExistingPR (Some 42)) [books_pull] = Some books_pull"
  by (simp add: managePR_isExistingPR_def managePR_marker_def books_pull_def
      body_includes_def template_number_def number_toString_42 ascii_def)

lemma find_books_findDocumentation:
  "find (findDocumentation_isDocsPR (Some 42)) [books_pull] = Some books_pull"
  by (simp add: findDocumentation_isDocsPR_def findDocumentation_marker_def books_pull_def
      body_includes_def template_number_def number_toString_42 ascii_def)

lemma other_not_existing: "\<not> getBranch_isExistingPR (Some 42) other_pull"
  by (simp add: getBranch_isExistingPR_def getBranch_marker_def other_pull_def
      body_includes_def template_number_def number_toString_42 ascii_def)

lemma other_not_managePR: "\<not> managePR_isExistingPR (Some 42) other_pull"
  by (simp add: managePR_isExistingPR_def managePR_marker_def other_pull_def ascii_def)

lemma find_other_managePR:
  "find (managePR_isExistingPR (Some 42)) [other_pull] = None"
  by (simp add: other_not_managePR)

lemma find_undefined:
  "find (\<lambda>pr. startsWith (pr_title pr) managePR_marker \<and>
              body_includes (pr_body pr) (ascii ''#undefined'')) [undefined_pull] =
   Some undefined_pull"
  by (simp add: managePR_marker_def undefined_pull_def body_includes_def ascii_def)

text \<open>
  Claim C1: the search predicate is the same in \<open>getBranch\<close>, \<open>managePR\<close> and
  \<open>findDocumentation\<close>. The last two agree on every pull request and number, but
  \<open>getBranch\<close> tests the title against a different literal. With the open pull
  request \<open>books_pull\<close> (number 7, title starting with U+1F4DA and
  \<open>Update documentation\<close>, body mentioning \<open>#42\<close>) and the number 42,
  \<open>managePR\<close> and \<open>findDocumentation\<close> select it and \<open>getBranch\<close> selects nothing.
\<close>

theorem documentation_pr_markers_differ:
  "(\<forall>n pr. managePR_isExistingPR n pr = findDocumentation_isDocsPR n pr) \<and>
   find (managePR_isExistingPR (Some 42)) [books_pull] = Some books_pull \<and>
   find (findDocumentation_isDocsPR (Some 42)) [books_pull] = Some books_pull \<and>
   find (getBranch_isExistingPR (Some 42)) [books_pull] = None"
proof -
  have "\<forall>n pr. managePR_isExistingPR n pr = findDocumentation_isDocsPR n pr"
    by (simp add: managePR_isExistingPR_def findDocumentation_isDocsPR_def managePR_marker_def
        findDocumentation_marker_def)
  then show ?thesis
    using find_books_managePR find_books_findDocumentation find_books_getBranch by blast
qed

section \<open>The branch reconciler\<close>

lemma created_refs_append: "created_refs (xs @ ys) = created_refs xs @ created_refs ys"
  by (induction xs rule: created_refs.induct) simp_all

lemma created_branches_refs: "created_branches l = map (drop 11) (created_refs l)"
  by (induction l rule: created_refs.induct) simp_all

lemma digit_not_separator: "d < 10 \<Longrightarrow> digit d \<noteq> 0x2F \<and> digit d \<noteq> 0x20"
proof -
  assume "d < 10"
  then have "d = 0 \<or> d = 1 \<or> d = 2 \<or> d = 3 \<or> d = 4 \<or> d = 5 \<or> d = 6 \<or> d = 7 \<or> d = 8 \<or> d = 9"
    by arith
  then show ?thesis
    by (auto simp: digit_def)
qed

lemma decimal_no_separator: "0x2F \<notin> set (decimal n) \<and> 0x20 \<notin> set (decimal n)"
proof (induction n rule: decimal.induct)
  case (1 n)
  show ?case
  proof (cases "n < 10")
    case True
    then show ?thesis
      using digit_not_separator [of n] by (simp add: decimal.simps [of n])
  next
    case False
    have "n mod 10 < 10" by simp
    then show ?thesis
      using False 1 digit_not_separator [of "n mod 10"]
      by (simp add: decimal.simps [of n])
  qed
qed

lemma number_toString_no_separator:
  "0x2F \<notin> set (number_toString n) \<and> 0x20 \<notin> set (number_toString n)"
  using decimal_no_separator by (simp add: number_toString_def ascii_def)

lemma branchName_shape:
  "\<exists>seg. getBranch_branchName opn clock = ascii ''docs/'' @ seg \<and> 0x2F \<notin> set seg \<and> 0x20 \<notin> set seg"
proof (cases "truthy_number opn")
  case True
  then obtain n where n: "opn = Some n" by (auto simp: truthy_number_def split: option.splits)
  have "getBranch_branchName opn clock = ascii ''docs/'' @ (ascii ''update-pr-'' @ number_toString n)"
    using True n by (simp add: getBranch_branchName_def template_number_def ascii_def)
  moreover have "0x2F \<notin> set (ascii ''update-pr-'' @ number_toString n) \<and> 0x20 \<notin> set (ascii ''update-pr-'' @ number_toString n)"
    using number_toString_no_separator [of n] by (simp add: ascii_def)
  ultimately show ?thesis by blast
next
  case False
  have "getBranch_branchName opn clock = ascii ''docs/'' @ (ascii ''update-'' @ number_toString clock)"
    using False by (simp add: getBranch_branchName_def ascii_def)
  moreover have "0x2F \<notin> set (ascii ''update-'' @ number_toString clock) \<and> 0x20 \<notin> set (ascii ''update-'' @ number_toString clock)"
    using number_toString_no_separator [of clock] by (simp add: ascii_def)
  ultimately show ?thesis by blast
qed

lemma branchName_42:
  "getBranch_branchName (Some 42) c = ascii ''docs/update-pr-42''"
  by (simp add: getBranch_branchName_def truthy_number_def template_number_def
      number_toString_42 ascii_def)

lemma created_refs_existing: "created_refs (fst (getBranch_existing gw opn)) = []"
  by (auto simp: getBranch_existing_def fst_io_bind io_simps split: sum.splits option.splits)

lemma created_refs_create:
  "set (created_refs (fst (getBranch_create env gw opn))) \<subseteq>
     {ascii ''refs/heads/'' @ getBranch_branchName opn (now env)}"
  by (auto simp: getBranch_create_def fst_io_bind io_simps Let_def split: sum.splits option.splits)

lemma created_refs_getBranch:
  "set (created_refs (fst (getBranch env gw state p))) \<subseteq>
     {ascii ''refs/heads/'' @ getBranch_branchName (gb_original_pr_number p) (now env)}"
  using created_refs_create [of env gw "gb_original_pr_number p"]
  by (auto simp: getBranch_def fst_io_bind io_simps created_refs_append created_refs_existing
      split: sum.splits option.splits)

lemma getBranch_example_run:
  "getBranch example_env (example_gateway [other_pull]) example_state
     (example_getBranch_parameters (Some 42)) =
   ([PullsList, ReposGet, GitGetRef (ascii ''heads/main''),
     GitCreateRef (ascii ''refs/heads/docs/update-pr-42'') (ascii ''5f2c1e'')],
    Inr (example_state\<lparr>branchInfo :=
           Some \<lparr>bi_name = ascii ''docs/update-pr-42'', bi_sha = ascii ''5f2c1e'',
                 bi_exists = True\<rparr>\<rparr>))"
  by (simp add: getBranch_def getBranch_existing_def getBranch_create_def example_defs
      truthy_string_def truthy_number_def other_not_existing branchName_42 io_simps Let_def ascii_def)

lemma example_managePR_preconditions:
  "truthy_string (GITHUB_TOKEN example_env)"
  "branch_exists example_branch_state"
  "mp_owner (example_managePR_parameters n) = Some (ascii ''acme'')"
  "mp_repo (example_managePR_parameters n) = Some (ascii ''sdk'')"
  "mp_title (example_managePR_parameters n) =
     Some ([0xD83D, 0xDCDA] @ ascii '' Update documentation for #42'')"
  "mp_body (example_managePR_parameters n) = Some (ascii ''Documents the changes of #42'')"
  "mp_original_pr_number (example_managePR_parameters n) = n"
  "pulls_list (example_gateway pulls) = Inr pulls"
  by (simp_all add: example_defs truthy_string_def branch_exists_def ascii_def)

text \<open>
  What \<open>getBranch\<close> does with the title literal it has. When its own search finds an
  open pull request, the run is the listing and the lookup of that head branch's tip,
  and the state returned names that branch; nothing is created.
\<close>

lemma getBranch_own_match_reuses:
  assumes "truthy_string (GITHUB_TOKEN env)"
    and "gb_owner p = Some owner" and "gb_repo p = Some repo"
    and "gb_original_pr_number p = Some n" and "n \<noteq> 0"
    and "pulls_list gw = Inr pulls"
    and "find (getBranch_isExistingPR (Some n)) pulls = Some pr"
    and "git_getRef gw (ascii ''heads/'' @ pr_head_ref pr) = Inr sha"
  shows "getBranch env gw state p =
           ([PullsList, GitGetRef (ascii ''heads/'' @ pr_head_ref pr)],
            Inr (state\<lparr>branchInfo :=
                   Some \<lparr>bi_name = pr_head_ref pr, bi_sha = sha, bi_exists = True\<rparr>\<rparr>)) \<and>
         filter is_createRef (fst (getBranch env gw state p)) = [] \<and>
         (\<forall>env' gw' state' sha'.
            truthy_string (GITHUB_TOKEN env') \<and> pulls_list gw' = Inr pulls \<and>
            git_getRef gw' (ascii ''heads/'' @ pr_head_ref pr) = Inr sha' \<longrightarrow>
            returned_branch_name (getBranch env' gw' state' p) = Some (pr_head_ref pr))"
proof -
  have run: "getBranch e g s p =
           ([PullsList, GitGetRef (ascii ''heads/'' @ pr_head_ref pr)],
            Inr (s\<lparr>branchInfo :=
                   Some \<lparr>bi_name = pr_head_ref pr, bi_sha = h, bi_exists = True\<rparr>\<rparr>))"
    if "truthy_string (GITHUB_TOKEN e)" and "pulls_list g = Inr pulls"
      and "git_getRef g (ascii ''heads/'' @ pr_head_ref pr) = Inr h" for e g s h
    using that assms(2-5,7)
    by (simp add: getBranch_def getBranch_existing_def truthy_number_def io_simps)
  have "getBranch env gw state p =
           ([PullsList, GitGetRef (ascii ''heads/'' @ pr_head_ref pr)],
            Inr (state\<lparr>branchInfo :=
                   Some \<lparr>bi_name = pr_head_ref pr, bi_sha = sha, bi_exists = True\<rparr>\<rparr>))"
    using run assms(1,6,8) by blast
  moreover from this have "filter is_createRef (fst (getBranch env gw state p)) = []"
    by simp
  moreover have "returned_branch_name (getBranch env' gw' state' p) = Some (pr_head_ref pr)"
    if "truthy_string (GITHUB_TOKEN env') \<and> pulls_list gw' = Inr pulls \<and>
            git_getRef gw' (ascii ''heads/'' @ pr_head_ref pr) = Inr sha'" for env' gw' state' sha'
    using run [of env' gw' sha' state'] that by (simp add: returned_branch_name_def)
  ultimately show ?thesis by blast
qed

text \<open>
  When its own search finds nothing, or is skipped, and the platform answers the
  three calls of the second half, the run creates one branch at the tip of the default
  branch and returns it.
\<close>

lemma getBranch_own_miss_creates:
  assumes "truthy_string (GITHUB_TOKEN env)"
    and "gb_owner p = Some owner" and "gb_repo p = Some repo"
    and "truthy_number (gb_original_pr_number p) \<Longrightarrow>
           pulls_list gw = Inr pulls \<and>
           find (getBranch_isExistingPR (gb_original_pr_number p)) pulls = None"
    and "repos_get gw = Inr base"
    and "git_getRef gw (ascii ''heads/'' @ base) = Inr tip"
    and "git_createRef gw
           (ascii ''refs/heads/'' @ getBranch_branchName (gb_original_pr_number p) (now env)) tip =
         Inr ()"
  shows "snd (getBranch env gw state p) =
           Inr (state\<lparr>branchInfo :=
                  Some \<lparr>bi_name = getBranch_branchName (gb_original_pr_number p) (now env),
                        bi_sha = tip, bi_exists = True\<rparr>\<rparr>) \<and>
         filter is_createRef (fst (getBranch env gw state p)) =
           [GitCreateRef
              (ascii ''refs/heads/'' @ getBranch_branchName (gb_original_pr_number p) (now env))
              tip] \<and>
         (\<forall>n. gb_original_pr_number p = Some n \<and> n \<noteq> 0 \<longrightarrow>
            getBranch_branchName (gb_original_pr_number p) (now env) =
              ascii ''docs/update-pr-'' @ number_toString n) \<and>
         (gb_original_pr_number p = None \<longrightarrow>
            getBranch_branchName (gb_original_pr_number p) (now env) =
              ascii ''docs/update-'' @ number_toString (now env))"
proof -
  have existing: "getBranch_existing gw (gb_original_pr_number p) =
      (if truthy_number (gb_original_pr_number p) then [PullsList] else [], Inr None)"
    using assms(4) by (cases "truthy_number (gb_original_pr_number p)")
      (simp_all add: getBranch_existing_def io_simps)
  have create: "getBranch_create env gw (gb_original_pr_number p) =
      ([ReposGet, GitGetRef (ascii ''heads/'' @ base),
        GitCreateRef (ascii ''refs/heads/'' @
          getBranch_branchName (gb_original_pr_number p) (now env)) tip],
       Inr \<lparr>bi_name = getBranch_branchName (gb_original_pr_number p) (now env),
            bi_sha = tip, bi_exists = True\<rparr>)"
    using assms(5-7) by (simp add: getBranch_create_def io_simps Let_def)
  have "getBranch env gw state p =
      ((if truthy_number (gb_original_pr_number p) then [PullsList] else []) @
       [ReposGet, GitGetRef (ascii ''heads/'' @ base),
        GitCreateRef (ascii ''refs/heads/'' @
          getBranch_branchName (gb_original_pr_number p) (now env)) tip],
       Inr (state\<lparr>branchInfo :=
                  Some \<lparr>bi_name = getBranch_branchName (gb_original_pr_number p) (now env),
                        bi_sha = tip, bi_exists = True\<rparr>\<rparr>))"
    using assms(1-3) by (simp add: getBranch_def existing create io_simps)
  then show ?thesis
    by (simp add: getBranch_branchName_def truthy_number_def template_number_def)
qed

lemma books_not_existing: "\<not> getBranch_isExistingPR (Some 42) books_pull"
  by (simp add: getBranch_isExistingPR_def getBranch_marker_def books_pull_def ascii_def)

lemma artifact_not_managePR: "\<not> managePR_isExistingPR (Some 42) artifact_pull"
  by (simp add: managePR_isExistingPR_def managePR_marker_def artifact_pull_def ascii_def)

lemma artifact_not_findDocumentation: "\<not> findDocumentation_isDocsPR (Some 42) artifact_pull"
  by (simp add: findDocumentation_isDocsPR_def findDocumentation_marker_def artifact_pull_def
      ascii_def)

lemma getBranch_preconditions:
  "truthy_string (GITHUB_TOKEN example_env)"
  "gb_owner (example_getBranch_parameters n) = Some (ascii ''acme'')"
  "gb_repo (example_getBranch_parameters n) = Some (ascii ''sdk'')"
  "gb_original_pr_number (example_getBranch_parameters n) = n"
  by (simp_all add: example_defs truthy_string_def ascii_def)

text \<open>
  Claim C2: when an open pull request matches the documentation-PR predicate,
  \<open>getBranch\<close> returns that pull request's head branch and creates nothing. The
  predicate that \<open>managePR\<close> and \<open>findDocumentation\<close> share recognises \<open>books_pull\<close>
  (number 7, head branch \<open>docs/update-pr-42\<close>) for the number 42. \<open>getBranch\<close>, whose
  title literal is a different string, does not find it: the run goes on to the second
  half and asks the platform to create \<open>refs/heads/docs/update-pr-42\<close>. Where the
  platform refuses the ref, which pull request 7 already has, the run fails and
  returns no branch.
\<close>

theorem getBranch_misses_documentation_pr:
  "find (managePR_isExistingPR (Some 42)) [books_pull] = Some books_pull \<and>
   find (findDocumentation_isDocsPR (Some 42)) [books_pull] = Some books_pull \<and>
   getBranch example_env (example_gateway [books_pull]) example_state
     (example_getBranch_parameters (Some 42)) =
     ([PullsList, ReposGet, GitGetRef (ascii ''heads/main''),
       GitCreateRef (ascii ''refs/heads/docs/update-pr-42'') (ascii ''5f2c1e'')],
      Inr (example_state\<lparr>branchInfo :=
             Some \<lparr>bi_name = ascii ''docs/update-pr-42'', bi_sha = ascii ''5f2c1e'',
                   bi_exists = True\<rparr>\<rparr>)) \<and>
   getBranch example_env (refusing_gateway [books_pull]) example_state
     (example_getBranch_parameters (Some 42)) =
     ([PullsList, ReposGet, GitGetRef (ascii ''heads/main''),
       GitCreateRef (ascii ''refs/heads/docs/update-pr-42'') (ascii ''5f2c1e'')],
      Inl (RemoteOperationFailed 422))"
proof -
  have "getBranch example_env (example_gateway [books_pull]) example_state
     (example_getBranch_parameters (Some 42)) =
     ([PullsList, ReposGet, GitGetRef (ascii ''heads/main''),
       GitCreateRef (ascii ''refs/heads/docs/update-pr-42'') (ascii ''5f2c1e'')],
      Inr (example_state\<lparr>branchInfo :=
             Some \<lparr>bi_name = ascii ''docs/update-pr-42'', bi_sha = ascii ''5f2c1e'',
                   bi_exists = True\<rparr>\<rparr>))"
    by (simp add: getBranch_def getBranch_existing_def getBranch_create_def
        getBranch_preconditions books_not_existing branchName_42 example_gateway_def
        truthy_number_def io_simps Let_def ascii_def)
  moreover have "getBranch example_env (refusing_gateway [books_pull]) example_state
     (example_getBranch_parameters (Some 42)) =
     ([PullsList, ReposGet, GitGetRef (ascii ''heads/main''),
       GitCreateRef (ascii ''refs/heads/docs/update-pr-42'') (ascii ''5f2c1e'')],
      Inl (RemoteOperationFailed 422))"
    by (simp add: getBranch_def getBranch_existing_def getBranch_create_def
        getBranch_preconditions books_not_existing branchName_42 example_gateway_def
        refusing_gateway_def truthy_number_def io_simps Let_def ascii_def)
  ultimately show ?thesis
    using find_books_managePR find_books_findDocumentation by blast
qed

text \<open>
  Claim C3: when no open pull request matches the documentation-PR predicate,
  \<open>getBranch\<close> creates exactly one branch. The predicate that \<open>managePR\<close> and
  \<open>findDocumentation\<close> share does not recognise \<open>artifact_pull\<close> (number 8, head
  branch \<open>docs/update-pr-42\<close>) for the number 42, and it is the only open pull request.
  \<open>getBranch\<close>, whose title literal is a different string, finds it: the run is the
  listing and one lookup, returns the head branch of pull request 8, and creates no
  branch.
\<close>

theorem getBranch_reuses_unrecognised_pr:
  "find (managePR_isExistingPR (Some 42)) [artifact_pull] = None \<and>
   find (findDocumentation_isDocsPR (Some 42)) [artifact_pull] = None \<and>
   getBranch example_env (example_gateway [artifact_pull]) example_state
     (example_getBranch_parameters (Some 42)) =
     ([PullsList, GitGetRef (ascii ''heads/docs/update-pr-42'')],
      Inr (example_state\<lparr>branchInfo :=
             Some \<lparr>bi_name = ascii ''docs/update-pr-42'', bi_sha = ascii ''5f2c1e'',
                   bi_exists = True\<rparr>\<rparr>)) \<and>
   filter is_createRef
     (fst (getBranch example_env (example_gateway [artifact_pull]) example_state
        (example_getBranch_parameters (Some 42)))) = []"
proof -
  have nz: "(42::number) \<noteq> 0" by simp
  have listing: "pulls_list (example_gateway [artifact_pull]) = Inr [artifact_pull]"
    and tip: "git_getRef (example_gateway [artifact_pull])
             (ascii ''heads/'' @ pr_head_ref artifact_pull) = Inr (ascii ''5f2c1e'')"
    by (simp_all add: example_gateway_def)
  have "find (managePR_isExistingPR (Some 42)) [artifact_pull] = None"
    and "find (findDocumentation_isDocsPR (Some 42)) [artifact_pull] = None"
    by (simp_all add: artifact_not_managePR artifact_not_findDocumentation)
  then show ?thesis
    using getBranch_own_match_reuses [OF getBranch_preconditions nz listing find_artifact tip,
        of example_state]
    by (simp add: artifact_pull_def ascii_def)
qed

text \<open>
  Claim C5, as stated: every branch name passed to the branch-creation call has no
  slash and no space. It fails: the name generated for the number 42 is
  \<open>docs/update-pr-42\<close>, passed as it is.
\<close>

theorem getBranch_branch_name_has_slash:
  "\<not> (\<forall>b \<in> set (created_branches
                   (fst (getBranch example_env (example_gateway [other_pull]) example_state
                      (example_getBranch_parameters (Some 42))))).
         0x2F \<notin> set b \<and> 0x20 \<notin> set b)"
  by (simp add: getBranch_example_run ascii_def)

text \<open>
  Claim C5, amended: in every run of \<open>getBranch\<close>, whatever the platform answers,
  every branch name passed to the branch-creation call is \<open>docs/\<close> followed by a
  segment with no slash and no space. The name is used as generated; nothing is
  substituted.
\<close>

theorem getBranch_created_branch_shape:
  "\<forall>b \<in> set (created_branches (fst (getBranch env gw state p))).
     \<exists>seg. b = ascii ''docs/'' @ seg \<and> 0x2F \<notin> set seg \<and> 0x20 \<notin> set seg"
proof
  fix b assume "b \<in> set (created_branches (fst (getBranch env gw state p)))"
  then obtain r where "r \<in> set (created_refs (fst (getBranch env gw state p)))" and b: "b = drop 11 r"
    by (auto simp: created_branches_refs)
  then have "r = ascii ''refs/heads/'' @ getBranch_branchName (gb_original_pr_number p) (now env)"
    using created_refs_getBranch [of env gw state p] by auto
  then have "b = getBranch_branchName (gb_original_pr_number p) (now env)"
    using b by (simp add: ascii_def)
  then show "\<exists>seg. b = ascii ''docs/'' @ seg \<and> 0x2F \<notin> set seg \<and> 0x20 \<notin> set seg"
    using branchName_shape by simp
qed

theorem getBranch_created_branch_shape_witness:
  "created_branches
     (fst (getBranch example_env (example_gateway [other_pull]) example_state
        (example_getBranch_parameters (Some 42)))) = [ascii ''docs/update-pr-42''] \<and>
   (\<exists>seg. ascii ''docs/update-pr-42'' = ascii ''docs/'' @ seg \<and>
          0x2F \<notin> set seg \<and> 0x20 \<notin> set seg)"
proof -
  have run: "created_branches
     (fst (getBranch example_env (example_gateway [other_pull]) example_state
        (example_getBranch_parameters (Some 42)))) = [ascii ''docs/update-pr-42'']"
    by (simp add: getBranch_example_run ascii_def)
  then show ?thesis
    using getBranch_created_branch_shape [of example_env "example_gateway [other_pull]"
        example_state "example_getBranch_parameters (Some 42)"]
    by simp
qed

section \<open>The pull-request reconciler\<close>

lemma managePR_update_log:
  "filter is_update (fst (managePR_update gw pr title body labels)) =
     [PullsUpdate (pr_number pr) title body] \<and>
   filter is_create (fst (managePR_update gw pr title body labels)) = [] \<and>
   take 1 (fst (managePR_update gw pr title body labels)) = [PullsUpdate (pr_number pr) title body]"
  by (auto simp: managePR_update_def fst_io_bind io_simps split: sum.splits)

lemma managePR_create_log:
  "filter is_update (fst (managePR_create gw title body head base labels opn)) = [] \<and>
   length (filter is_create (fst (managePR_create gw title body head base labels opn))) \<le> 1"
  by (auto simp: managePR_create_def fst_io_bind io_simps split: sum.splits)

lemma managePR_create_done:
  assumes "snd (managePR_create gw title body head base labels opn) = Inr u"
    and "opn \<noteq> Some 0"
  shows "length (filter is_create (fst (managePR_create gw title body head base labels opn))) = 1 \<and>
         ((opn = None \<and> filter is_comment (fst (managePR_create gw title body head base labels opn)) = []) \<or>
          (\<exists>n k. opn = Some n \<and>
             filter is_comment (fst (managePR_create gw title body head base labels opn)) =
               [IssuesCreateComment n (managePR_comment k)]))"
  using assms
  by (cases opn)
     (auto simp: managePR_create_def fst_io_bind snd_io_bind io_simps truthy_number_def
           split: sum.splits if_splits)

lemma managePR_example_done:
  "snd (managePR example_env (example_gateway [other_pull]) example_branch_state
          (example_managePR_parameters (Some 42))) = Inr example_branch_state"
  by (simp add: managePR_def managePR_create_def example_managePR_preconditions
      other_not_managePR io_simps)
    (simp add: example_defs truthy_string_def truthy_length_def truthy_number_def io_simps)

lemma PullsList_not_in_create: "PullsList \<notin> set (fst (getBranch_create env gw opn))"
  by (auto simp: getBranch_create_def fst_io_bind io_simps Let_def split: sum.splits)

text \<open>
  Claim C4: in a run of \<open>managePR\<close> that reaches the search (credential present,
  branch reconciled, parameters valid, listing answered), with an originating number
  that is absent or a pull-request number (not 0): if the search finds a pull request,
  exactly one update call is made, on that pull request with the given title and body,
  and no create call; if it finds none, no update call is made and at most one create
  call, and when the run completes, exactly one create call was made, and the comments
  posted are none when no number was given and exactly one, on the originating pull
  request, when one was.
\<close>

theorem managePR_updates_or_creates:
  assumes "truthy_string (GITHUB_TOKEN env)" and "branch_exists state"
    and "mp_owner p = Some owner" and "mp_repo p = Some repo"
    and "mp_title p = Some title" and "mp_body p = Some body"
    and "pulls_list gw = Inr pulls"
    and "mp_original_pr_number p \<noteq> Some 0"
  shows "(\<forall>pr. find (managePR_isExistingPR (mp_original_pr_number p)) pulls = Some pr \<longrightarrow>
            filter is_update (fst (managePR env gw state p)) =
              [PullsUpdate (pr_number pr) title body] \<and>
            filter is_create (fst (managePR env gw state p)) = []) \<and>
         (find (managePR_isExistingPR (mp_original_pr_number p)) pulls = None \<longrightarrow>
            filter is_update (fst (managePR env gw state p)) = [] \<and>
            length (filter is_create (fst (managePR env gw state p))) \<le> 1 \<and>
            (\<forall>state'. snd (managePR env gw state p) = Inr state' \<longrightarrow>
               length (filter is_create (fst (managePR env gw state p))) = 1 \<and>
               ((mp_original_pr_number p = None \<and>
                 filter is_comment (fst (managePR env gw state p)) = []) \<or>
                (\<exists>n k. mp_original_pr_number p = Some n \<and>
                   filter is_comment (fst (managePR env gw state p)) =
                     [IssuesCreateComment n (managePR_comment k)]))))"
proof (cases "find (managePR_isExistingPR (mp_original_pr_number p)) pulls")
  case (Some pr)
  then have "fst (managePR env gw state p) =
      PullsList # fst (managePR_update gw pr title body (mp_labels p))"
    using assms(1-7) by (simp add: managePR_def fst_io_bind io_simps split: sum.splits)
  then show ?thesis
    using Some managePR_update_log [of gw pr title body "mp_labels p"] by simp
next
  case None
  let ?create = "managePR_create gw title body (branch_name state) (mp_base_branch p)
                   (mp_labels p) (mp_original_pr_number p)"
  have log: "fst (managePR env gw state p) = PullsList # fst ?create"
    using None assms(1-7) by (simp add: managePR_def fst_io_bind io_simps split: sum.splits)
  have res: "snd ?create = Inr ()" if "snd (managePR env gw state p) = Inr state'" for state'
    using that None assms(1-7)
    by (simp add: managePR_def snd_io_bind io_simps split: sum.splits)
  show ?thesis
    using None log res managePR_create_log [of gw title body "branch_name state" "mp_base_branch p"
        "mp_labels p" "mp_original_pr_number p"]
      managePR_create_done [of gw title body "branch_name state" "mp_base_branch p"
        "mp_labels p" "mp_original_pr_number p" "()", OF _ assms(8)]
    by simp
qed

theorem managePR_updates_or_creates_witness:
  "filter is_update
     (fst (managePR example_env (example_gateway [books_pull]) example_branch_state
             (example_managePR_parameters (Some 42)))) =
     [PullsUpdate 7 ([0xD83D, 0xDCDA] @ ascii '' Update documentation for #42'')
        (ascii ''Documents the changes of #42'')] \<and>
   filter is_create
     (fst (managePR example_env (example_gateway [books_pull]) example_branch_state
             (example_managePR_parameters (Some 42)))) = [] \<and>
   snd (managePR example_env (example_gateway [other_pull]) example_branch_state
          (example_managePR_parameters (Some 42))) = Inr example_branch_state \<and>
   filter is_update
     (fst (managePR example_env (example_gateway [other_pull]) example_branch_state
             (example_managePR_parameters (Some 42)))) = [] \<and>
   length (filter is_create
     (fst (managePR example_env (example_gateway [other_pull]) example_branch_state
             (example_managePR_parameters (Some 42))))) = 1 \<and>
   (\<exists>k. filter is_comment
     (fst (managePR example_env (example_gateway [other_pull]) example_branch_state
             (example_managePR_parameters (Some 42)))) =
     [IssuesCreateComment 42 (managePR_comment k)])"
proof -
  have nz: "mp_original_pr_number (example_managePR_parameters (Some 42)) \<noteq> Some 0"
    by (simp add: example_defs)
  note found = managePR_updates_or_creates
      [OF example_managePR_preconditions(1-6) example_managePR_preconditions(8) nz,
       of "[books_pull]"]
  note fresh = managePR_updates_or_creates
      [OF example_managePR_preconditions(1-6) example_managePR_preconditions(8) nz,
       of "[other_pull]"]
  show ?thesis
    using found fresh find_books_managePR find_other_managePR managePR_example_done
    by (simp add: example_managePR_preconditions(7) books_pull_def)
qed

text \<open>
  Claim C10: without an originating number, \<open>managePR\<close> still lists the open pull
  requests and its body test is for the text \<open>#undefined\<close>: the first open pull
  request whose title starts with the marker and whose body contains \<open>#undefined\<close>
  is updated, by the call right after the listing, and no pull request is created.
  \<open>getBranch\<close> without a number never lists the pull requests.
\<close>

theorem managePR_without_number_matches_undefined:
  assumes "truthy_string (GITHUB_TOKEN env)" and "branch_exists state"
    and "mp_owner p = Some owner" and "mp_repo p = Some repo"
    and "mp_title p = Some title" and "mp_body p = Some body"
    and "mp_original_pr_number p = None"
    and "pulls_list gw = Inr pulls"
    and "find (\<lambda>pr. startsWith (pr_title pr) managePR_marker \<and>
                    body_includes (pr_body pr) (ascii ''#undefined'')) pulls = Some pr"
    and "gb_original_pr_number q = None"
  shows "take 2 (fst (managePR env gw state p)) =
           [PullsList, PullsUpdate (pr_number pr) title body] \<and>
         filter is_create (fst (managePR env gw state p)) = [] \<and>
         PullsList \<notin> set (fst (getBranch env' gw' state' q))"
proof -
  have pred: "managePR_isExistingPR None =
      (\<lambda>pr. startsWith (pr_title pr) managePR_marker \<and>
             body_includes (pr_body pr) (ascii ''#undefined''))"
    by (rule ext) (simp add: managePR_isExistingPR_def template_number_def ascii_def)
  have "fst (managePR env gw state p) =
      PullsList # fst (managePR_update gw pr title body (mp_labels p))"
    using assms(1-9) by (simp add: managePR_def pred fst_io_bind io_simps split: sum.splits)
  then have "take 2 (fst (managePR env gw state p)) =
           [PullsList, PullsUpdate (pr_number pr) title body] \<and>
         filter is_create (fst (managePR env gw state p)) = []"
    using managePR_update_log [of gw pr title body "mp_labels p"]
    by (simp add: numeral_2_eq_2)
  moreover have "PullsList \<notin> set (fst (getBranch env' gw' state' q))"
    using assms(10) PullsList_not_in_create [of env' gw' None]
    by (auto simp: getBranch_def getBranch_existing_def truthy_number_def fst_io_bind io_simps
        split: option.splits)
  ultimately show ?thesis by blast
qed

theorem managePR_without_number_matches_undefined_witness:
  "take 2 (fst (managePR example_env (example_gateway [undefined_pull]) example_branch_state
                  (example_managePR_parameters None))) =
     [PullsList,
      PullsUpdate 9 ([0xD83D, 0xDCDA] @ ascii '' Update documentation for #42'')
        (ascii ''Documents the changes of #42'')] \<and>
   filter is_create
     (fst (managePR example_env (example_gateway [undefined_pull]) example_branch_state
             (example_managePR_parameters None))) = [] \<and>
   PullsList \<notin> set (fst (getBranch example_env (example_gateway [undefined_pull]) example_state
                            (example_getBranch_parameters None)))"
proof -
  have q: "gb_original_pr_number (example_getBranch_parameters None) = None"
    by (simp add: example_defs)
  show ?thesis
    using managePR_without_number_matches_undefined
      [OF example_managePR_preconditions(1-8) find_undefined q,
       of example_env "example_gateway [undefined_pull]" example_state]
    by (simp add: undefined_pull_def)
qed

section \<open>Documentation discovery\<close>

lemma replace_extension_at_end:
  assumes "e \<in> set source_extensions"
  shows "replace_extension (xs @ e) = xs @ ascii ''.mdx''"
proof (induction xs)
  case Nil
  from assms show ?case
    by (auto simp: source_extensions_def ascii_def)
next
  case (Cons x xs)
  have "length (x # xs @ e) = 4 \<Longrightarrow> length e = 3 \<and> xs = []"
    using assms by (auto simp: source_extensions_def ascii_def)
  moreover have "x # xs @ e \<in> set source_extensions \<Longrightarrow> length (x # xs @ e) = 4"
    using assms by (auto simp: source_extensions_def ascii_def)
  ultimately have "x # xs @ e \<notin> set source_extensions"
    using assms by (auto simp: source_extensions_def ascii_def)
  then show ?case
    using Cons.IH by simp
qed

text \<open>
  Claim C6: the documentation path is derived by \<open>docPath\<close>, a function of the
  source path alone (it reads no state and makes no call, so equal inputs give equal
  outputs, and it is defined on every string). On a source path that starts with
  \<open>src/\<close> and ends with \<open>.js\<close>, \<open>.jsx\<close>, \<open>.ts\<close> or \<open>.tsx\<close> it replaces the
  prefix with \<open>docs/\<close> and the extension with \<open>.mdx\<close>; \<open>src/foo/bar.ts\<close> becomes
  \<open>docs/foo/bar.mdx\<close>.
\<close>

theorem docPath_substitutes_root_and_extension:
  "e \<in> set source_extensions \<Longrightarrow>
     docPath (ascii ''src/'' @ rest @ e) = ascii ''docs/'' @ rest @ ascii ''.mdx''"
proof -
  assume e: "e \<in> set source_extensions"
  have "replace_src_prefix (ascii ''src/'' @ rest @ e) = ascii ''docs/'' @ rest @ e"
    by (simp add: replace_src_prefix_def ascii_def)
  then show ?thesis
    using replace_extension_at_end [OF e, of "ascii ''docs/'' @ rest"]
    by (simp add: docPath_def)
qed

theorem docPath_substitutes_root_and_extension_witness:
  "docPath (ascii ''src/foo/bar.ts'') = ascii ''docs/foo/bar.mdx''"
proof -
  have "ascii ''.ts'' \<in> set source_extensions"
    by (simp add: source_extensions_def)
  from docPath_substitutes_root_and_extension [OF this, of "ascii ''foo/bar''"]
  show ?thesis by (simp add: ascii_def)
qed

lemma promise_all_map:
  assumes "\<And>x. snd (f x) = Inr (g x)"
  shows "snd (promise_all (map f xs)) = Inr (map g xs) \<and>
         fst (promise_all (map f xs)) = concat (map (\<lambda>x. fst (f x)) xs)"
proof (induction xs)
  case Nil
  show ?case by simp
next
  case (Cons x xs)
  obtain l where fx: "f x = (l, Inr (g x))"
    using assms [of x] by (cases "f x") simp
  obtain l' where rest: "promise_all (map f xs) = (l', Inr (map g xs))"
    using Cons.IH by (cases "promise_all (map f xs)") simp
  show ?case
    using fx rest Cons.IH by simp
qed

lemma fetch_doc_file_run:
  "fetch_doc_file env gw path =
     ([ReposGetContent (docPath path) (ascii ''main'')], Inr (recorded_doc_file env gw path))"
  by (cases "repos_getContent gw (docPath path) (ascii ''main'')")
     (auto simp: fetch_doc_file_def recorded_doc_file_def io_catch_def io_bind_def io_call_def
        io_return_def split: option.splits)

lemma fetch_pr_file_run:
  "fetch_pr_file env gw ref filename =
     ([ReposGetContent filename ref], Inr (recorded_pr_file env gw ref filename))"
  by (cases "repos_getContent gw filename ref")
     (auto simp: fetch_pr_file_def recorded_pr_file_def io_catch_def io_bind_def io_call_def
        io_return_def split: option.splits)

lemma fetch_navigation_run:
  "fetch_navigation env gw =
     ([ReposGetContent (ascii ''mint.json'') (ascii ''main'')], Inr (recorded_navigation env gw))"
  by (cases "repos_getContent gw (ascii ''mint.json'') (ascii ''main'')")
     (auto simp: fetch_navigation_def recorded_navigation_def io_catch_def io_bind_def
        io_call_def io_return_def split: option.splits)

lemma fetch_all_doc_files:
  "promise_all (map (fetch_doc_file env gw) paths) =
     (map (\<lambda>path. ReposGetContent (docPath path) (ascii ''main'')) paths,
      Inr (map (recorded_doc_file env gw) paths))"
proof -
  have "snd (promise_all (map (fetch_doc_file env gw) paths)) =
          Inr (map (recorded_doc_file env gw) paths) \<and>
        fst (promise_all (map (fetch_doc_file env gw) paths)) =
          concat (map (\<lambda>x. fst (fetch_doc_file env gw x)) paths)"
    by (rule promise_all_map) (simp add: fetch_doc_file_run)
  moreover have "concat (map (\<lambda>x. fst (fetch_doc_file env gw x)) paths) =
      map (\<lambda>path. ReposGetContent (docPath path) (ascii ''main'')) paths"
    by (induction paths) (simp_all add: fetch_doc_file_run)
  ultimately show ?thesis
    by (cases "promise_all (map (fetch_doc_file env gw) paths)") simp
qed

lemma fetch_all_pr_files:
  "promise_all (map (fetch_pr_file env gw ref) files) =
     (map (\<lambda>f. ReposGetContent f ref) files, Inr (map (recorded_pr_file env gw ref) files))"
proof -
  have "snd (promise_all (map (fetch_pr_file env gw ref) files)) =
          Inr (map (recorded_pr_file env gw ref) files) \<and>
        fst (promise_all (map (fetch_pr_file env gw ref) files)) =
          concat (map (\<lambda>x. fst (fetch_pr_file env gw ref x)) files)"
    by (rule promise_all_map) (simp add: fetch_pr_file_run)
  moreover have "concat (map (\<lambda>x. fst (fetch_pr_file env gw ref x)) files) =
      map (\<lambda>f. ReposGetContent f ref) files"
    by (induction files) (simp_all add: fetch_pr_file_run)
  ultimately show ?thesis
    by (cases "promise_all (map (fetch_pr_file env gw ref) files)") simp
qed

lemma findDocumentation_run:
  assumes "truthy_string (GITHUB_TOKEN env)"
    and "pulls_list gw = Inr pulls"
    and "\<And>pr. find (findDocumentation_isDocsPR (fd_pull_number p)) pulls = Some pr \<Longrightarrow>
           pulls_listFiles gw (pr_number pr) = Inr (changed pr)"
  shows "findDocumentation env gw state p =
    (PullsList #
     (case find (findDocumentation_isDocsPR (fd_pull_number p)) pulls of
        None \<Rightarrow> []
      | Some pr \<Rightarrow> PullsListFiles (pr_number pr) #
          map (\<lambda>f. ReposGetContent f (pr_head_ref pr)) (changed pr)) @
     map (\<lambda>path. ReposGetContent (docPath path) (ascii ''main'')) (fd_paths p) @
     [ReposGetContent (ascii ''mint.json'') (ascii ''main'')],
     Inr (state\<lparr>docInfo := Some
       \<lparr>di_files = map (recorded_doc_file env gw) (fd_paths p) @ recorded_navigation env gw,
        di_existingPR =
          (case find (findDocumentation_isDocsPR (fd_pull_number p)) pulls of
             None \<Rightarrow> None
           | Some pr \<Rightarrow> Some \<lparr>ep_number = pr_number pr, ep_branch = pr_head_ref pr,
                ep_files = map (recorded_pr_file env gw (pr_head_ref pr)) (changed pr)\<rparr>)\<rparr>\<rparr>))"
proof (cases "find (findDocumentation_isDocsPR (fd_pull_number p)) pulls")
  case None
  then show ?thesis
    using assms(1,2)
    by (simp add: findDocumentation_def findDocumentation_existingPR_def fetch_all_doc_files
        fetch_navigation_run io_simps)
next
  case (Some pr)
  then show ?thesis
    using assms(1,2) assms(3) [OF Some]
    by (simp add: findDocumentation_def findDocumentation_existingPR_def fetch_all_doc_files
        fetch_all_pr_files fetch_navigation_run io_simps)
qed

text \<open>
  Claim C8: once the listing of open pull requests is answered (and, when a
  documentation pull request is found, the listing of its files), discovery returns,
  whatever the platform answers to any content request. The first entries of the
  recorded files are the documentation paths of the changed paths, in order; the entry
  of a path whose content request failed has no content, and the entry of a path whose
  request was answered with a content has that content decoded, so a failure touches
  its own entry only. Every path's content was requested. The same holds for the files
  of the existing documentation pull request, where a failed request is recorded as
  the empty content.
\<close>

theorem findDocumentation_survives_unreadable_files:
  assumes "truthy_string (GITHUB_TOKEN env)"
    and "pulls_list gw = Inr pulls"
    and "\<And>pr. find (findDocumentation_isDocsPR (fd_pull_number p)) pulls = Some pr \<Longrightarrow>
           pulls_listFiles gw (pr_number pr) = Inr (changed pr)"
  shows "\<exists>info.
    snd (findDocumentation env gw state p) = Inr (state\<lparr>docInfo := Some info\<rparr>) \<and>
    map df_path (take (length (fd_paths p)) (di_files info)) = map docPath (fd_paths p) \<and>
    (\<forall>i < length (fd_paths p).
       (isl (repos_getContent gw (docPath (fd_paths p ! i)) (ascii ''main'')) \<longrightarrow>
          df_content (di_files info ! i) = None) \<and>
       (\<forall>data c. repos_getContent gw (docPath (fd_paths p ! i)) (ascii ''main'') = Inr data \<and>
                 cd_content data = Some c \<longrightarrow>
          df_content (di_files info ! i) = Some (base64_decode env c))) \<and>
    (\<forall>path \<in> set (fd_paths p).
       ReposGetContent (docPath path) (ascii ''main'') \<in>
         set (fst (findDocumentation env gw state p))) \<and>
    (\<forall>pr. find (findDocumentation_isDocsPR (fd_pull_number p)) pulls = Some pr \<longrightarrow>
       (\<exists>e. di_existingPR info = Some e \<and>
            map pf_path (ep_files e) = changed pr \<and>
            (\<forall>i < length (changed pr).
               (isl (repos_getContent gw (changed pr ! i) (pr_head_ref pr)) \<longrightarrow>
                  pf_content (ep_files e ! i) = []) \<and>
               (\<forall>data c. repos_getContent gw (changed pr ! i) (pr_head_ref pr) = Inr data \<and>
                         cd_content data = Some c \<longrightarrow>
                  pf_content (ep_files e ! i) = base64_decode env c)) \<and>
            (\<forall>f \<in> set (changed pr).
               ReposGetContent f (pr_head_ref pr) \<in>
                 set (fst (findDocumentation env gw state p)))))"
proof -
  have run: "findDocumentation env gw state p =
    (PullsList #
     (case find (findDocumentation_isDocsPR (fd_pull_number p)) pulls of
        None \<Rightarrow> []
      | Some pr \<Rightarrow> PullsListFiles (pr_number pr) #
          map (\<lambda>f. ReposGetContent f (pr_head_ref pr)) (changed pr)) @
     map (\<lambda>path. ReposGetContent (docPath path) (ascii ''main'')) (fd_paths p) @
     [ReposGetContent (ascii ''mint.json'') (ascii ''main'')],
     Inr (state\<lparr>docInfo := Some
       \<lparr>di_files = map (recorded_doc_file env gw) (fd_paths p) @ recorded_navigation env gw,
        di_existingPR =
          (case find (findDocumentation_isDocsPR (fd_pull_number p)) pulls of
             None \<Rightarrow> None
           | Some pr \<Rightarrow> Some \<lparr>ep_number = pr_number pr, ep_branch = pr_head_ref pr,
                ep_files = map (recorded_pr_file env gw (pr_head_ref pr)) (changed pr)\<rparr>)\<rparr>\<rparr>))"
    using findDocumentation_run [OF assms] .
  let ?info = "\<lparr>di_files = map (recorded_doc_file env gw) (fd_paths p) @ recorded_navigation env gw,
        di_existingPR =
          (case find (findDocumentation_isDocsPR (fd_pull_number p)) pulls of
             None \<Rightarrow> None
           | Some pr \<Rightarrow> Some \<lparr>ep_number = pr_number pr, ep_branch = pr_head_ref pr,
                ep_files = map (recorded_pr_file env gw (pr_head_ref pr)) (changed pr)\<rparr>)\<rparr>"
  have path_of: "df_path (recorded_doc_file env gw x) = docPath x" for x
    by (simp add: recorded_doc_file_def split: sum.splits option.splits)
  have pr_path_of: "pf_path (recorded_pr_file env gw r x) = x" for r x
    by (simp add: recorded_pr_file_def split: sum.splits option.splits)
  have a: "snd (findDocumentation env gw state p) = Inr (state\<lparr>docInfo := Some ?info\<rparr>)"
    using run by simp
  have b: "map df_path (take (length (fd_paths p)) (di_files ?info)) = map docPath (fd_paths p)"
    by (simp add: path_of)
  have c: "\<forall>i < length (fd_paths p).
       (isl (repos_getContent gw (docPath (fd_paths p ! i)) (ascii ''main'')) \<longrightarrow>
          df_content (di_files ?info ! i) = None) \<and>
       (\<forall>data c. repos_getContent gw (docPath (fd_paths p ! i)) (ascii ''main'') = Inr data \<and>
                 cd_content data = Some c \<longrightarrow>
          df_content (di_files ?info ! i) = Some (base64_decode env c))"
    by (auto simp: nth_append recorded_doc_file_def isl_def)
  have d: "\<forall>path \<in> set (fd_paths p).
       ReposGetContent (docPath path) (ascii ''main'') \<in>
         set (fst (findDocumentation env gw state p))"
    using run by auto
  have e: "\<forall>pr. find (findDocumentation_isDocsPR (fd_pull_number p)) pulls = Some pr \<longrightarrow>
       (\<exists>e. di_existingPR ?info = Some e \<and>
            map pf_path (ep_files e) = changed pr \<and>
            (\<forall>i < length (changed pr).
               (isl (repos_getContent gw (changed pr ! i) (pr_head_ref pr)) \<longrightarrow>
                  pf_content (ep_files e ! i) = []) \<and>
               (\<forall>data c. repos_getContent gw (changed pr ! i) (pr_head_ref pr) = Inr data \<and>
                         cd_content data = Some c \<longrightarrow>
                  pf_content (ep_files e ! i) = base64_decode env c)) \<and>
            (\<forall>f \<in> set (changed pr).
               ReposGetContent f (pr_head_ref pr) \<in>
                 set (fst (findDocumentation env gw state p))))"
  proof (intro allI impI)
    fix pr assume found: "find (findDocumentation_isDocsPR (fd_pull_number p)) pulls = Some pr"
    have "map pf_path (map (recorded_pr_file env gw (pr_head_ref pr)) (changed pr)) = changed pr"
      by (simp add: pr_path_of comp_def)
    moreover have "\<forall>i < length (changed pr).
               (isl (repos_getContent gw (changed pr ! i) (pr_head_ref pr)) \<longrightarrow>
                  pf_content (map (recorded_pr_file env gw (pr_head_ref pr)) (changed pr) ! i) = []) \<and>
               (\<forall>data c. repos_getContent gw (changed pr ! i) (pr_head_ref pr) = Inr data \<and>
                         cd_content data = Some c \<longrightarrow>
                  pf_content (map (recorded_pr_file env gw (pr_head_ref pr)) (changed pr) ! i) =
                    base64_decode env c)"
      by (auto simp: recorded_pr_file_def isl_def)
    moreover have "\<forall>f \<in> set (changed pr).
               ReposGetContent f (pr_head_ref pr) \<in>
                 set (fst (findDocumentation env gw state p))"
      using run found by auto
    ultimately show "\<exists>e. di_existingPR ?info = Some e \<and>
            map pf_path (ep_files e) = changed pr \<and>
            (\<forall>i < length (changed pr).
               (isl (repos_getContent gw (changed pr ! i) (pr_head_ref pr)) \<longrightarrow>
                  pf_content (ep_files e ! i) = []) \<and>
               (\<forall>data c. repos_getContent gw (changed pr ! i) (pr_head_ref pr) = Inr data \<and>
                         cd_content data = Some c \<longrightarrow>
                  pf_content (ep_files e ! i) = base64_decode env c)) \<and>
            (\<forall>f \<in> set (changed pr).
               ReposGetContent f (pr_head_ref pr) \<in>
                 set (fst (findDocumentation env gw state p)))"
      using found by auto
  qed
  show ?thesis
    using a b c d e by blast
qed

theorem findDocumentation_survives_unreadable_files_witness:
  "\<exists>info e.
     snd (findDocumentation example_env (example_gateway [books_pull]) example_state
            example_findDocumentation_parameters) = Inr (example_state\<lparr>docInfo := Some info\<rparr>) \<and>
     map df_path (take 2 (di_files info)) =
       [ascii ''docs/llm/openai.mdx'', ascii ''docs/llm/new.mdx''] \<and>
     df_content (di_files info ! 0) = Some (ascii ''# OpenAI'') \<and>
     df_content (di_files info ! 1) = None \<and>
     di_existingPR info = Some e \<and>
     map pf_path (ep_files e) = [ascii ''docs/llm/openai.mdx'', ascii ''docs/llm/gone.mdx''] \<and>
     pf_content (ep_files e ! 0) = ascii ''# OpenAI'' \<and>
     pf_content (ep_files e ! 1) = []"
proof -
  let ?gw = "example_gateway [books_pull]"
  let ?p = "example_findDocumentation_parameters"
  let ?changed = "\<lambda>pr::pull. [ascii ''docs/llm/openai.mdx'', ascii ''docs/llm/gone.mdx'']"
  have 1: "truthy_string (GITHUB_TOKEN example_env)"
    by (simp add: example_env_def truthy_string_def ascii_def)
  have 2: "pulls_list ?gw = Inr [books_pull]"
    by (simp add: example_gateway_def)
  have 3: "pulls_listFiles ?gw (pr_number pr) = Inr (?changed pr)" for pr
    by (simp add: example_gateway_def)
  have found: "find (findDocumentation_isDocsPR (fd_pull_number ?p)) [books_pull] = Some books_pull"
    using find_books_findDocumentation by (simp add: example_findDocumentation_parameters_def)
  have paths: "fd_paths ?p = [ascii ''src/llm/openai.ts'', ascii ''src/llm/new.ts'']"
    by (simp add: example_findDocumentation_parameters_def)
  have d0: "docPath (ascii ''src/llm/openai.ts'') = ascii ''docs/llm/openai.mdx''"
    and d1: "docPath (ascii ''src/llm/new.ts'') = ascii ''docs/llm/new.mdx''"
    by (simp_all add: docPath_def replace_src_prefix_def source_extensions_def ascii_def)
  have g0: "repos_getContent ?gw (ascii ''docs/llm/openai.mdx'') r =
      Inr \<lparr>cd_content = Some (ascii ''# OpenAI''), cd_sha = ascii ''9a1b''\<rparr>" for r
    by (simp add: example_gateway_def)
  have g1: "isl (repos_getContent ?gw (ascii ''docs/llm/new.mdx'') r)"
    and g2: "isl (repos_getContent ?gw (ascii ''docs/llm/gone.mdx'') r)" for r
    by (simp_all add: example_gateway_def ascii_def)
  have dec: "base64_decode example_env c = c" for c
    by (simp add: example_env_def)
  from findDocumentation_survives_unreadable_files [of example_env ?gw "[books_pull]" ?p ?changed
      example_state, OF 1 2 3]
  obtain info where info:
    "snd (findDocumentation example_env ?gw example_state ?p) =
       Inr (example_state\<lparr>docInfo := Some info\<rparr>)"
    "map df_path (take (length (fd_paths ?p)) (di_files info)) = map docPath (fd_paths ?p)"
    "\<forall>i < length (fd_paths ?p).
       (isl (repos_getContent ?gw (docPath (fd_paths ?p ! i)) (ascii ''main'')) \<longrightarrow>
          df_content (di_files info ! i) = None) \<and>
       (\<forall>data c. repos_getContent ?gw (docPath (fd_paths ?p ! i)) (ascii ''main'') = Inr data \<and>
                 cd_content data = Some c \<longrightarrow>
          df_content (di_files info ! i) = Some (base64_decode example_env c))"
    "\<forall>pr. find (findDocumentation_isDocsPR (fd_pull_number ?p)) [books_pull] = Some pr \<longrightarrow>
       (\<exists>e. di_existingPR info = Some e \<and>
            map pf_path (ep_files e) = ?changed pr \<and>
            (\<forall>i < length (?changed pr).
               (isl (repos_getContent ?gw (?changed pr ! i) (pr_head_ref pr)) \<longrightarrow>
                  pf_content (ep_files e ! i) = []) \<and>
               (\<forall>data c. repos_getContent ?gw (?changed pr ! i) (pr_head_ref pr) = Inr data \<and>
                         cd_content data = Some c \<longrightarrow>
                  pf_content (ep_files e ! i) = base64_decode example_env c)) \<and>
            (\<forall>f \<in> set (?changed pr).
               ReposGetContent f (pr_head_ref pr) \<in>
                 set (fst (findDocumentation example_env ?gw example_state ?p))))"
    by blast
  from info(4) [rule_format, OF found] obtain e where e:
    "di_existingPR info = Some e"
    "map pf_path (ep_files e) = [ascii ''docs/llm/openai.mdx'', ascii ''docs/llm/gone.mdx'']"
    "\<forall>i < length [ascii ''docs/llm/openai.mdx'', ascii ''docs/llm/gone.mdx''].
       (isl (repos_getContent ?gw ([ascii ''docs/llm/openai.mdx'', ascii ''docs/llm/gone.mdx''] ! i)
               (pr_head_ref books_pull)) \<longrightarrow> pf_content (ep_files e ! i) = []) \<and>
       (\<forall>data c. repos_getContent ?gw
                   ([ascii ''docs/llm/openai.mdx'', ascii ''docs/llm/gone.mdx''] ! i)
                   (pr_head_ref books_pull) = Inr data \<and> cd_content data = Some c \<longrightarrow>
          pf_content (ep_files e ! i) = base64_decode example_env c)"
    by (elim exE conjE) (rule that)
  have a: "map df_path (take 2 (di_files info)) =
       [ascii ''docs/llm/openai.mdx'', ascii ''docs/llm/new.mdx'']"
    using info(2) by (simp add: paths d0 d1 numeral_2_eq_2)
  have b: "df_content (di_files info ! 0) = Some (ascii ''# OpenAI'')"
    using info(3) [rule_format, of 0] g0 [of "ascii ''main''"] by (simp add: paths d0 dec)
  have c: "df_content (di_files info ! 1) = None"
    using info(3) [rule_format, of 1] g1 [of "ascii ''main''"] by (simp add: paths d1)
  have f: "pf_content (ep_files e ! 0) = ascii ''# OpenAI''"
    using e(3) [rule_format, of 0] g0 [of "pr_head_ref books_pull"] by (simp add: dec)
  have g: "pf_content (ep_files e ! 1) = []"
    using e(3) [rule_format, of 1] g2 [of "pr_head_ref books_pull"] by simp
  show ?thesis
    by (rule exI [of _ info], rule exI [of _ e], intro conjI)
       (fact info(1) a b c e(1,2) f g)+
qed

section \<open>Template selection and the content gate\<close>

lemma startsWith_append: "startsWith (p @ ys) p"
  by (induction p) simp_all

lemma str_includes_append: "str_includes (xs @ p @ ys) p"
proof (induction xs)
  case Nil
  show ?case by (cases "p @ ys") (use startsWith_append [of p ys] in auto)
next
  case (Cons x xs)
  then show ?case by simp
qed

lemma startsWith_hd: "startsWith s (c # p) \<Longrightarrow> c \<in> set s"
  by (cases s) auto

lemma str_includes_hd: "str_includes s (c # p) \<Longrightarrow> c \<in> set s"
  by (induction s) (auto dest: startsWith_hd)

lemma writeDocumentation_doc_run:
  assumes "truthy_string (OPENAI_API_KEY env)"
    and "wd_path p = Some path" and "wd_type p = Some Doc"
    and "fileExt path \<in> set (cfg_docExtensions (config state))"
    and "chat_completions_create gw (generation_request state path Doc (wd_context p)) =
           Inr (Some content)"
  shows "snd (writeDocumentation env gw state p) =
           (if quality_rejected content then Inl ContentQualityRejected
            else Inr (state\<lparr>generatedContent :=
                   Some \<lparr>gc_content = content, gc_path = path, gc_type = Doc,
                         gc_update_type =
                           Some (case context_field (wd_context p) wc_update_type of
                                   None \<Rightarrow> Update | Some u \<Rightarrow> u)\<rparr>\<rparr>))"
proof (cases "content = []")
  case True
  then show ?thesis
    using assms
    by (simp add: writeDocumentation_def io_bind_Inr io_call_def io_return_def io_throw_def
        or_default_def truthy_string_def Let_def quality_rejected_def)
next
  case False
  then show ?thesis
    using assms
    by (simp add: writeDocumentation_def io_bind_Inr io_call_def io_return_def io_throw_def
        or_default_def truthy_string_def Let_def)
qed

lemma fileExt_example: "fileExt (ascii ''docs/llm/openai.mdx'') = ascii ''.mdx''"
  by (simp add: fileExt_def lastIndexOf_def substring_from_def ascii_def)

lemma long_content_clean:
  "str_includes long_content code_fence \<and> \<not> str_includes long_content (ascii ''TODO'') \<and>
   \<not> str_includes long_content (ascii ''placeholder'')"
proof -
  have "str_includes long_content code_fence"
    using str_includes_append [of "replicate 497 0x61" code_fence "[]"]
    by (simp add: long_content_def)
  moreover have "\<not> str_includes long_content (ascii ''TODO'')"
    using str_includes_hd [of long_content "0x54" "ascii ''ODO''"]
    by (auto simp: long_content_def code_fence_def ascii_def)
  moreover have "\<not> str_includes long_content (ascii ''placeholder'')"
    using str_includes_hd [of long_content "0x70" "ascii ''laceholder''"]
    by (auto simp: long_content_def code_fence_def ascii_def)
  ultimately show ?thesis by blast
qed

lemma short_content_bare: "\<not> str_includes short_content code_fence"
  using str_includes_hd [of short_content "0x60" "[0x60, 0x60]"]
  by (auto simp: short_content_def code_fence_def)

text \<open>
  Claim C7: in a run of \<open>writeDocumentation\<close> of type doc that reaches the gate
  (credential present, parameters valid, extension allowed, the generator answered
  with \<open>content\<close>): a content of length 40 without a code fence makes the run fail
  with the content-quality error; a content of length 500 that contains a code fence
  and neither \<open>TODO\<close> nor \<open>placeholder\<close> is returned as the generated content.
\<close>

theorem content_gate:
  assumes "truthy_string (OPENAI_API_KEY env)"
    and "wd_path p = Some path" and "wd_type p = Some Doc"
    and "fileExt path \<in> set (cfg_docExtensions (config state))"
    and "chat_completions_create gw (generation_request state path Doc (wd_context p)) =
           Inr (Some content)"
  shows "(length content = 40 \<and> \<not> str_includes content code_fence \<longrightarrow>
            snd (writeDocumentation env gw state p) = Inl ContentQualityRejected) \<and>
         (length content = 500 \<and> str_includes content code_fence \<and>
          \<not> str_includes content (ascii ''TODO'') \<and>
          \<not> str_includes content (ascii ''placeholder'') \<longrightarrow>
            snd (writeDocumentation env gw state p) =
              Inr (state\<lparr>generatedContent :=
                     Some \<lparr>gc_content = content, gc_path = path, gc_type = Doc,
                           gc_update_type =
                             Some (case context_field (wd_context p) wc_update_type of
                                     None \<Rightarrow> Update | Some u \<Rightarrow> u)\<rparr>\<rparr>))"
  using writeDocumentation_doc_run [OF assms]
  by (simp add: quality_rejected_def)

theorem content_gate_witness:
  "snd (writeDocumentation example_env (example_llm_gateway short_content) example_state
          example_writeDocumentation_parameters) = Inl ContentQualityRejected \<and>
   snd (writeDocumentation example_env (example_llm_gateway long_content) example_state
          example_writeDocumentation_parameters) =
     Inr (example_state\<lparr>generatedContent :=
            Some \<lparr>gc_content = long_content, gc_path = ascii ''docs/llm/openai.mdx'',
                  gc_type = Doc, gc_update_type = Some Update\<rparr>\<rparr>)"
proof -
  have 1: "truthy_string (OPENAI_API_KEY example_env)"
    by (simp add: example_env_def truthy_string_def ascii_def)
  have 2: "wd_path example_writeDocumentation_parameters = Some (ascii ''docs/llm/openai.mdx'')"
    and 3: "wd_type example_writeDocumentation_parameters = Some Doc"
    by (simp_all add: example_writeDocumentation_parameters_def)
  have 4: "fileExt (ascii ''docs/llm/openai.mdx'') \<in> set (cfg_docExtensions (config example_state))"
    by (simp add: fileExt_example example_state_def)
  have 5: "chat_completions_create (example_llm_gateway c)
             (generation_request example_state (ascii ''docs/llm/openai.mdx'') Doc
                (wd_context example_writeDocumentation_parameters)) = Inr (Some c)" for c
    by (simp add: example_llm_gateway_def)
  have 6: "length short_content = 40" and 7: "length long_content = 500"
    by (simp_all add: short_content_def long_content_def code_fence_def)
  show ?thesis
    using content_gate [OF 1 2 3 4 5, of short_content] content_gate [OF 1 2 3 4 5, of long_content]
      6 7 short_content_bare long_content_clean
    by (simp add: example_writeDocumentation_parameters_def context_field_def)
qed

lemma category_openai: "category_of (ascii ''docs/llm/openai.mdx'') = Some (ascii ''llm'')"
  by (simp add: category_of_def ascii_def Let_def)

lemma category_notes: "category_of (ascii ''docs/llm/extra/notes.mdx'') = Some (ascii ''extra'')"
  by (simp add: category_of_def ascii_def Let_def)

lemma category_fetch: "category_of (ascii ''docs/http/fetch.mdx'') = Some (ascii ''http'')"
  by (simp add: category_of_def ascii_def Let_def)

lemma known_files_example:
  "known_files example_docs_state =
          [\<lparr>df_path = ascii ''docs/llm/extra/notes.mdx'', df_content = Some (ascii ''# Notes''),
            df_type = Doc, df_lastModified = None\<rparr>,
           \<lparr>df_path = ascii ''docs/http/fetch.mdx'', df_content = Some (ascii ''# Fetch''),
            df_type = Doc, df_lastModified = None\<rparr>,
           \<lparr>df_path = ascii ''docs/llm/empty.mdx'', df_content = None,
            df_type = Doc, df_lastModified = None\<rparr>]"
  by (simp add: known_files_def example_docs_state_def)

lemma findSimilarDocs_example:
  "findSimilarDocs (ascii ''docs/llm/openai.mdx'') (category_of (ascii ''docs/llm/openai.mdx''))
     None example_docs_state = [ascii ''# Notes'']"
  by (simp add: findSimilarDocs_def category_openai known_files_example truthy_length_def
      truthy_string_def template_string_def Let_def)
     (simp add: ascii_def)

text \<open>
  Claim C9, as stated: without matching template paths, the files selected are those
  whose second-to-last path segment equals the target's. It fails: for the target
  \<open>docs/llm/openai.mdx\<close> the action selects the known file
  \<open>docs/llm/extra/notes.mdx\<close>, whose second-to-last segment is \<open>extra\<close>, because its
  path contains \<open>/llm/\<close>.
\<close>

theorem findSimilarDocs_selects_nested_file:
  "findSimilarDocs (ascii ''docs/llm/openai.mdx'') (category_of (ascii ''docs/llm/openai.mdx''))
     None example_docs_state = [ascii ''# Notes''] \<and>
   claimed_similar_by_category (ascii ''docs/llm/openai.mdx'') example_docs_state = [] \<and>
   findSimilarDocs (ascii ''docs/llm/openai.mdx'') (category_of (ascii ''docs/llm/openai.mdx''))
     None example_docs_state \<noteq>
   claimed_similar_by_category (ascii ''docs/llm/openai.mdx'') example_docs_state"
proof -
  have "claimed_similar_by_category (ascii ''docs/llm/openai.mdx'') example_docs_state = []"
    by (simp add: claimed_similar_by_category_def known_files_example category_openai
        category_notes category_fetch truthy_string_def)
       (simp add: ascii_def)
  then show ?thesis
    using findSimilarDocs_example by simp
qed

text \<open>
  Claim C9, amended: \<open>findSimilarDocs\<close> is a function of the target path, the
  template paths and the known files. When template paths are given and some known
  file at one of them has a content, it selects the contents of exactly the known
  files at those paths that have a content, and no category is looked at. Otherwise it
  selects the contents of exactly the known files of kind doc with a content, other
  than the target, whose path contains \<open>/c/\<close>, where \<open>c\<close> is the target's
  second-to-last path segment (the text \<open>undefined\<close> when the target has fewer than
  two segments). A content counts as present when it is neither null nor empty.
\<close>

theorem findSimilarDocs_selection:
  "findSimilarDocs path (category_of path) templatePaths state =
     (if truthy_length templatePaths \<and>
         (\<exists>file \<in> set (known_files state).
            df_path file \<in> set (the templatePaths) \<and> truthy_string (df_content file))
      then map (\<lambda>doc. the (df_content doc))
             (filter (\<lambda>file. df_path file \<in> set (the templatePaths) \<and>
                              truthy_string (df_content file)) (known_files state))
      else map (\<lambda>doc. the (df_content doc))
             (filter (\<lambda>file. df_type file = Doc \<and> truthy_string (df_content file) \<and>
                              df_path file \<noteq> path \<and>
                              str_includes (df_path file)
                                (ascii ''/'' @ template_string (category_of path) @ ascii ''/''))
                (known_files state)))"
  by (auto simp: findSimilarDocs_def Let_def filter_empty_conv)

theorem findSimilarDocs_selection_witness:
  "findSimilarDocs (ascii ''docs/llm/openai.mdx'') (category_of (ascii ''docs/llm/openai.mdx''))
     (Some [ascii ''docs/http/fetch.mdx'']) example_docs_state = [ascii ''# Fetch'']"
  using findSimilarDocs_selection [of "ascii ''docs/llm/openai.mdx''"
      "Some [ascii ''docs/http/fetch.mdx'']" example_docs_state]
  by (simp add: known_files_example truthy_length_def truthy_string_def)
     (simp add: ascii_def)

end
